theory Spec2Isabelle
  imports Main "HOL-Library.Word"
begin

unbundle bit_operations_syntax

section \<open>Bytes, errors, logging\<close>

text \<open>
  A Go \<open>string\<close> and a Go \<open>[]byte\<close> are both sequences of bytes, and the conversions
  between them copy the bytes unchanged. Both are modelled as \<open>string\<close> (a list of 8-bit
  \<open>char\<close>). A \<open>uint8\<close> is an \<open>8 word\<close>, a \<open>uint16\<close> a \<open>16 word\<close>; an \<open>int\<close> holding a
  value below \<open>2 ^ 16\<close> is an \<open>int\<close>.
\<close>

type_synonym bytes = string
type_synonym uint8 = "8 word"
type_synonym uint16 = "16 word"

datatype error =
    EOF
  | ErrUnexpectedEOF
  | ErrTransport
  | ErrNotExist string
  | ErrOS string
  | ErrPKCS7Padding
  | ErrJSON
  | ErrResponseStatus nat
  | ErrNoCandidatesFound
  | ErrWebRTC
  | Panic

text \<open>\<open>Panic\<close> stands for a run-time panic: not an error value, the end of the run.\<close>

datatype log_entry = LogError error | LogInfo string

definition byte_of :: "uint8 \<Rightarrow> char" where
  "byte_of x = char_of (unat x)"

definition uint8_of :: "char \<Rightarrow> uint8" where
  "uint8_of c = of_nat (of_char c)"

section \<open>Byte streams (io.Writer, io.Reader, encoding/binary)\<close>

text \<open>
  A writer keeps what was written to it; when \<open>wfault\<close> is set every \<open>Write\<close> fails with
  that error and writes nothing. A reader holds the bytes still to come and the error it
  reports once they are used up (\<open>EOF\<close> for a stream that was closed cleanly).
\<close>

record writer =
  written :: bytes
  wfault :: "error option"

record reader =
  pending :: bytes
  rend :: error

definition io_Write :: "writer \<Rightarrow> bytes \<Rightarrow> error option \<times> writer" where
  "io_Write w p =
     (case wfault w of
        Some e \<Rightarrow> (Some e, w)
      | None \<Rightarrow> (None, w\<lparr>written := written w @ p\<rparr>))"

definition io_ReadFull :: "reader \<Rightarrow> nat \<Rightarrow> (error + bytes) \<times> reader" where
  "io_ReadFull r n =
     (if n = 0 then (Inr [], r)
      else if n \<le> length (pending r)
        then (Inr (take n (pending r)), r\<lparr>pending := drop n (pending r)\<rparr>)
      else if pending r = [] then (Inl (rend r), r)
      else (Inl (if rend r = EOF then ErrUnexpectedEOF else rend r), r\<lparr>pending := []\<rparr>))"

text \<open>\<open>io.Copy\<close> from a reader: everything up to the end; \<open>EOF\<close> is not an error.\<close>

definition io_ReadAll :: "reader \<Rightarrow> error option \<times> bytes \<times> reader" where
  "io_ReadAll r = ((if rend r = EOF then None else Some (rend r)), pending r, r\<lparr>pending := []\<rparr>)"

definition binary_Write_uint8 :: "writer \<Rightarrow> uint8 \<Rightarrow> error option \<times> writer" where
  "binary_Write_uint8 w x = io_Write w [byte_of x]"

definition binary_Write_bytes :: "writer \<Rightarrow> bytes \<Rightarrow> error option \<times> writer" where
  "binary_Write_bytes w b = io_Write w b"

definition binary_Read_uint8 :: "reader \<Rightarrow> (error + uint8) \<times> reader" where
  "binary_Read_uint8 r =
     (case io_ReadFull r 1 of
        (Inl e, r') \<Rightarrow> (Inl e, r')
      | (Inr [], r') \<Rightarrow> (Inl ErrUnexpectedEOF, r')
      | (Inr (c # cs), r') \<Rightarrow> (Inr (uint8_of c), r'))"

text \<open>
  \<open>binary.Read(r, order, b)\<close> for a byte slice \<open>b\<close> of length \<open>n\<close>: on success \<open>b\<close> holds
  the \<open>n\<close> bytes read; on failure \<open>b\<close> keeps its zero bytes.
\<close>

definition binary_Read_bytes :: "reader \<Rightarrow> nat \<Rightarrow> error option \<times> bytes \<times> reader" where
  "binary_Read_bytes r n =
     (case io_ReadFull r n of
        (Inl e, r') \<Rightarrow> (Some e, replicate n (CHR 0x00), r')
      | (Inr bs, r') \<Rightarrow> (None, bs, r'))"

section \<open>The file system and the log\<close>

text \<open>
  The operating system as the file manager sees it: the regular files by path string, the
  paths at which the system refuses every operation (permissions, a missing parent
  directory, a directory in the way), and the lines logged so far. Two different path
  strings are two different files.
\<close>

record sys =
  files :: "string \<rightharpoonup> bytes"
  faulty :: "string \<Rightarrow> bool"
  logged :: "log_entry list"

definition log_Error :: "error \<Rightarrow> sys \<Rightarrow> sys" where
  "log_Error e s = s\<lparr>logged := logged s @ [LogError e]\<rparr>"

definition log_Info :: "string \<Rightarrow> sys \<Rightarrow> sys" where
  "log_Info m s = s\<lparr>logged := logged s @ [LogInfo m]\<rparr>"

definition os_Stat :: "sys \<Rightarrow> string \<Rightarrow> error option" where
  "os_Stat s p =
     (if faulty s p then Some (ErrOS p)
      else if files s p = None then Some (ErrNotExist p)
      else None)"

fun os_IsNotExist :: "error \<Rightarrow> bool" where
  "os_IsNotExist (ErrNotExist p) = True"
| "os_IsNotExist e = False"

definition os_Remove :: "sys \<Rightarrow> string \<Rightarrow> error option \<times> sys" where
  "os_Remove s p =
     (if faulty s p then (Some (ErrOS p), s)
      else if files s p = None then (Some (ErrNotExist p), s)
      else (None, s\<lparr>files := (files s)(p := None)\<rparr>))"

definition os_Rename :: "sys \<Rightarrow> string \<Rightarrow> string \<Rightarrow> error option \<times> sys" where
  "os_Rename s old new =
     (if faulty s old \<or> faulty s new then (Some (ErrOS old), s)
      else case files s old of
        None \<Rightarrow> (Some (ErrNotExist old), s)
      | Some c \<Rightarrow> (None, s\<lparr>files := (files s)(old := None, new \<mapsto> c)\<rparr>))"

definition os_Create :: "sys \<Rightarrow> string \<Rightarrow> error option \<times> sys" where
  "os_Create s p =
     (if faulty s p then (Some (ErrOS p), s)
      else (None, s\<lparr>files := (files s)(p \<mapsto> [])\<rparr>))"

definition os_Open :: "sys \<Rightarrow> string \<Rightarrow> error + bytes" where
  "os_Open s p =
     (if faulty s p then Inl (ErrOS p)
      else case files s p of None \<Rightarrow> Inl (ErrNotExist p) | Some c \<Rightarrow> Inr c)"

definition PathSeparator :: char where
  "PathSeparator = CHR ''/''"

subsection \<open>Decimal formatting (fmt.Sprintf with %d)\<close>

definition digit :: "nat \<Rightarrow> char" where
  "digit d = char_of (48 + d)"

fun decimal :: "nat \<Rightarrow> string" where
  "decimal n = (if n < 10 then [digit n] else decimal (n div 10) @ [digit (n mod 10)])"

definition Sprintf_d :: "int \<Rightarrow> string" where
  "Sprintf_d i = (if i < 0 then CHR ''-'' # decimal (nat (- i)) else decimal (nat i))"

section \<open>The file manager (pkg/filemanager/backupper.go)\<close>

record BackupperConfig =
  ZipDir :: bool
  SourceEntry :: string
  DestinationDir :: string
  OutputFilename :: string
  Versions :: uint16
  Password1 :: string
  Password2 :: string

definition writeFilename :: "string \<Rightarrow> writer \<Rightarrow> error option \<times> writer" where
  "writeFilename name w =
     (let b = name;
          length = (of_nat (List.length b) :: uint8)
      in case binary_Write_uint8 w length of
           (Some err, w') \<Rightarrow> (Some err, w')
         | (None, w') \<Rightarrow> binary_Write_bytes w' b)"

definition writeFile :: "sys \<Rightarrow> string \<Rightarrow> writer \<Rightarrow> error option \<times> writer" where
  "writeFile s path w =
     (case os_Open s path of
        Inl err \<Rightarrow> (Some err, w)
      | Inr content \<Rightarrow> io_Write w content)"

text \<open>
  The loop body of \<open>shiftFileVersions\<close> for the index \<open>i\<close>: \<open>shift_move\<close> is the part
  after the \<open>os.Stat\<close> check (remove the oldest version, rename any other one).
\<close>

definition shift_move :: "string \<Rightarrow> int \<Rightarrow> int \<Rightarrow> string \<Rightarrow> sys \<Rightarrow> sys" where
  "shift_move path oldestVersion i oldVersionPath s =
     (if i = oldestVersion
      then (case os_Remove s oldVersionPath of
              (Some err, s') \<Rightarrow> log_Error err s'
            | (None, s') \<Rightarrow> s')
      else
        let newVersionPath = path @ ''.'' @ Sprintf_d (i + 1)
        in case os_Rename s oldVersionPath newVersionPath of
             (Some err, s') \<Rightarrow> log_Error err s'
           | (None, s') \<Rightarrow> s')"

definition shift_body :: "string \<Rightarrow> int \<Rightarrow> int \<Rightarrow> sys \<Rightarrow> sys" where
  "shift_body path oldestVersion i s =
     (let oldVersionPath = (if i \<noteq> 0 then path @ ''.'' @ Sprintf_d i else path)
      in case os_Stat s oldVersionPath of
           Some err \<Rightarrow>
             if os_IsNotExist err then s
             else shift_move path oldestVersion i oldVersionPath (log_Error err s)
         | None \<Rightarrow> shift_move path oldestVersion i oldVersionPath s)"

function shift_from :: "string \<Rightarrow> int \<Rightarrow> int \<Rightarrow> sys \<Rightarrow> sys" where
  "shift_from path oldestVersion i s =
     (if i \<ge> 0 then shift_from path oldestVersion (i - 1) (shift_body path oldestVersion i s)
      else s)"
  by pat_completeness auto
termination
  by (relation "measure (\<lambda>(path, oldestVersion, i, s). nat (i + 1))") auto

definition shiftFileVersions :: "BackupperConfig \<Rightarrow> string \<Rightarrow> sys \<Rightarrow> sys" where
  "shiftFileVersions cfg path s =
     (let oldestVersion = uint (Versions cfg) - 1
      in shift_from path oldestVersion oldestVersion s)"

definition saveFile :: "string \<Rightarrow> reader \<Rightarrow> sys \<Rightarrow> error option \<times> reader \<times> sys" where
  "saveFile path r s =
     (case os_Create s path of
        (Some err, s') \<Rightarrow> (Some err, r, s')
      | (None, s') \<Rightarrow>
          (case io_ReadAll r of
             (err, content, r') \<Rightarrow> (err, r', s'\<lparr>files := (files s')(path \<mapsto> content)\<rparr>)))"

definition receiveFile ::
  "BackupperConfig \<Rightarrow> reader \<Rightarrow> sys \<Rightarrow> error option \<times> reader \<times> sys" where
  "receiveFile cfg r s =
     (case binary_Read_uint8 r of
        (Inl err, r1) \<Rightarrow> (Some err, r1, s)
      | (Inr nameLen, r1) \<Rightarrow>
          (case binary_Read_bytes r1 (unat nameLen) of
             (Some err, name, r2) \<Rightarrow> (Some err, r2, s)
           | (None, name, r2) \<Rightarrow>
               let path = DestinationDir cfg @ [PathSeparator] @ name;
                   s1 = shiftFileVersions cfg path s;
                   s2 = log_Info (''receiving file: '' @ name) s1
               in saveFile path r2 s2))"

subsection \<open>Names of the version chain, and example states\<close>

text \<open>
  The path the loop of \<open>shiftFileVersions\<close> builds for the index \<open>n\<close>: \<open>path\<close> itself for
  \<open>0\<close> and \<open>path.n\<close> otherwise. \<open>decimal_value\<close> reads a decimal string back. The
  other definitions are concrete inputs for the examples: a receiver that keeps two
  versions in \<open>/out\<close>, an empty system, a system that holds two versions of \<open>a.txt\<close>,
  and the sender's system with the file to send.
\<close>

definition version_path :: "string \<Rightarrow> nat \<Rightarrow> string" where
  "version_path path n = (if n \<noteq> 0 then path @ ''.'' @ Sprintf_d (int n) else path)"

definition decimal_value :: "string \<Rightarrow> nat" where
  "decimal_value s = foldl (\<lambda>a c. 10 * a + (of_char c - 48)) 0 s"

definition receiver_cfg :: BackupperConfig where
  "receiver_cfg = \<lparr>ZipDir = False, SourceEntry = [], DestinationDir = ''/out'',
     OutputFilename = [], Versions = 2, Password1 = [], Password2 = []\<rparr>"

definition empty_sys :: sys where
  "empty_sys = \<lparr>files = Map.empty, faulty = (\<lambda>p. False), logged = []\<rparr>"

definition two_versions_sys :: sys where
  "two_versions_sys =
     \<lparr>files = [''/out/a.txt'' \<mapsto> ''world'', ''/out/a.txt.1'' \<mapsto> ''hello''],
      faulty = (\<lambda>p. False), logged = []\<rparr>"

definition sender_sys :: sys where
  "sender_sys = \<lparr>files = [''/t/a.txt'' \<mapsto> ''hello''], faulty = (\<lambda>p. False), logged = []\<rparr>"

section \<open>AES in CBC mode with PKCS#7 padding (pkg/crypto)\<close>

text \<open>
  The block cipher (\<open>cipher.Block\<close>, made by \<open>aes.NewCipher\<close>) belongs to the standard
  library and is a parameter: its block size and its two block functions.
\<close>

record block_cipher =
  BlockSize :: nat
  encrypt_block :: "bytes \<Rightarrow> bytes"
  decrypt_block :: "bytes \<Rightarrow> bytes"

record AesCbcConfig =
  Key :: bytes
  IV :: bytes

record AesCbc =
  aes_cfg :: AesCbcConfig
  aes_cipher :: block_cipher

definition xor_byte :: "char \<Rightarrow> char \<Rightarrow> char" where
  "xor_byte a b = byte_of (uint8_of a XOR uint8_of b)"

definition xor_bytes :: "bytes \<Rightarrow> bytes \<Rightarrow> bytes" where
  "xor_bytes a b = map2 xor_byte a b"

text \<open>\<open>pkcs7pad.Pad\<close> and \<open>pkcs7pad.Unpad\<close> (github.com/zenazn/pkcs7pad).\<close>

definition pkcs7pad_Pad :: "bytes \<Rightarrow> nat \<Rightarrow> error + bytes" where
  "pkcs7pad_Pad buf blockSize =
     (if blockSize < 1 \<or> blockSize > 255 then Inl Panic
      else let i = blockSize - (length buf mod blockSize)
           in Inr (buf @ replicate i (char_of i)))"

definition pkcs7pad_Unpad :: "bytes \<Rightarrow> error + bytes" where
  "pkcs7pad_Unpad buf =
     (if buf = [] then Inl ErrPKCS7Padding
      else let padLen = (of_char (last buf) :: nat)
           in if 1 \<le> padLen \<and> padLen \<le> length buf \<and>
                 list_all (\<lambda>b. b = last buf) (drop (length buf - padLen) buf)
              then Inr (take (length buf - padLen) buf)
              else Inl ErrPKCS7Padding)"

text \<open>\<open>CryptBlocks\<close> of the CBC encrypter and decrypter, block by block.\<close>

function cbc_encrypt_blocks :: "block_cipher \<Rightarrow> bytes \<Rightarrow> bytes \<Rightarrow> bytes" where
  "cbc_encrypt_blocks b iv src =
     (if src = [] \<or> BlockSize b = 0 then []
      else let c = encrypt_block b (xor_bytes (take (BlockSize b) src) iv)
           in c @ cbc_encrypt_blocks b c (drop (BlockSize b) src))"
  by pat_completeness auto

termination
  by (relation "measure (\<lambda>(b, iv, src). length src)") auto

function cbc_decrypt_blocks :: "block_cipher \<Rightarrow> bytes \<Rightarrow> bytes \<Rightarrow> bytes" where
  "cbc_decrypt_blocks b iv src =
     (if src = [] \<or> BlockSize b = 0 then []
      else let c = take (BlockSize b) src
           in xor_bytes (decrypt_block b c) iv @ cbc_decrypt_blocks b c (drop (BlockSize b) src))"
  by pat_completeness auto

termination
  by (relation "measure (\<lambda>(b, iv, src). length src)") auto

definition AesCbc_Encrypt :: "AesCbc \<Rightarrow> bytes \<Rightarrow> error + bytes" where
  "AesCbc_Encrypt c payload =
     (case pkcs7pad_Pad payload (BlockSize (aes_cipher c)) of
        Inl e \<Rightarrow> Inl e
      | Inr padded \<Rightarrow>
          if length (IV (aes_cfg c)) \<noteq> BlockSize (aes_cipher c) then Inl Panic
          else if length padded mod BlockSize (aes_cipher c) \<noteq> 0 then Inl Panic
          else Inr (cbc_encrypt_blocks (aes_cipher c) (IV (aes_cfg c)) padded))"

definition AesCbc_Decrypt :: "AesCbc \<Rightarrow> bytes \<Rightarrow> error + bytes" where
  "AesCbc_Decrypt c payload =
     (if length (IV (aes_cfg c)) \<noteq> BlockSize (aes_cipher c) then Inl Panic
      else if length payload mod BlockSize (aes_cipher c) \<noteq> 0 then Inl Panic
      else pkcs7pad_Unpad (cbc_decrypt_blocks (aes_cipher c) (IV (aes_cfg c)) payload))"

section \<open>The password manager (pkg/passwordmanager/local_saver.go)\<close>

record Crypto =
  Encrypt :: "bytes \<Rightarrow> error + bytes"
  Decrypt :: "bytes \<Rightarrow> error + bytes"

definition AesCbc_Crypto :: "AesCbc \<Rightarrow> Crypto" where
  "AesCbc_Crypto c = \<lparr>Encrypt = AesCbc_Encrypt c, Decrypt = AesCbc_Decrypt c\<rparr>"

record LocalSaver =
  PasswordFile :: string
  crypto :: Crypto

definition os_WriteFile :: "sys \<Rightarrow> string \<Rightarrow> bytes \<Rightarrow> error option \<times> sys" where
  "os_WriteFile s p d =
     (if faulty s p then (Some (ErrOS p), s)
      else (None, s\<lparr>files := (files s)(p \<mapsto> d)\<rparr>))"

definition os_ReadFile :: "sys \<Rightarrow> string \<Rightarrow> error + bytes" where
  "os_ReadFile s p = os_Open s p"

definition writePassword :: "writer \<Rightarrow> string \<Rightarrow> error option \<times> writer" where
  "writePassword w password =
     (let b = password;
          length = (of_nat (List.length b) :: uint8)
      in case binary_Write_uint8 w length of
           (Some err, w') \<Rightarrow> (Some err, w')
         | (None, w') \<Rightarrow> binary_Write_bytes w' b)"

text \<open>
  \<open>readPassword\<close> ends with \<open>return string(b), binary.Read(r, binary.BigEndian, b)\<close>: the
  call fills \<open>b\<close> and the conversion takes the bytes of \<open>b\<close> after the call, as the Go
  compiler orders a call before the other operands of a return statement.
\<close>

definition readPassword :: "reader \<Rightarrow> string \<times> error option \<times> reader" where
  "readPassword r =
     (case binary_Read_uint8 r of
        (Inl err, r1) \<Rightarrow> ([], Some err, r1)
      | (Inr len, r1) \<Rightarrow>
          (case binary_Read_bytes r1 (unat len) of
             (err, b, r2) \<Rightarrow> (b, err, r2)))"

definition SavePasswords :: "LocalSaver \<Rightarrow> string \<Rightarrow> string \<Rightarrow> sys \<Rightarrow> error option \<times> sys" where
  "SavePasswords m p1 p2 s =
     (case writePassword \<lparr>written = [], wfault = None\<rparr> p1 of
        (Some err, buf1) \<Rightarrow> (Some err, s)
      | (None, buf1) \<Rightarrow>
          (case writePassword buf1 p2 of
             (Some err, buf2) \<Rightarrow> (Some err, s)
           | (None, buf2) \<Rightarrow>
               (case Encrypt (crypto m) (written buf2) of
                  Inl err \<Rightarrow> (Some err, s)
                | Inr encrypted \<Rightarrow> os_WriteFile s (PasswordFile m) encrypted)))"

definition GetPasswords :: "LocalSaver \<Rightarrow> sys \<Rightarrow> string \<times> string \<times> error option" where
  "GetPasswords m s =
     (case os_ReadFile s (PasswordFile m) of
        Inl err \<Rightarrow> ([], [], Some err)
      | Inr payload \<Rightarrow>
          (case Decrypt (crypto m) payload of
             Inl err \<Rightarrow> ([], [], Some err)
           | Inr decrypted \<Rightarrow>
               (case readPassword \<lparr>pending = decrypted, rend = EOF\<rparr> of
                  (p1, Some err, buf1) \<Rightarrow> ([], [], Some err)
                | (p1, None, buf1) \<Rightarrow>
                    (case readPassword buf1 of
                       (p2, Some err, buf2) \<Rightarrow> ([], [], Some err)
                     | (p2, None, buf2) \<Rightarrow> (p1, p2, None)))))"

text \<open>
  For the examples: the key and the IV of \<open>internal/app.go\<close>, with a stand-in for the
  block cipher (the reversal of the 16 bytes of a block; AES itself is not modelled).
\<close>

definition stand_in_aes :: AesCbc where
  "stand_in_aes =
     \<lparr>aes_cfg = \<lparr>Key = ''AES-128-key-1234'', IV = ''IV-1234567890123''\<rparr>,
      aes_cipher = \<lparr>BlockSize = 16, encrypt_block = rev, decrypt_block = rev\<rparr>\<rparr>"

definition example_saver :: LocalSaver where
  "example_saver = \<lparr>PasswordFile = ''/t/p.bin'', crypto = AesCbc_Crypto stand_in_aes\<rparr>"

section \<open>The peer transport (pkg/peer/webrtc.go)\<close>

datatype PeerConnectionState =
  StateNew | StateConnecting | StateConnected | StateDisconnected | StateFailed | StateClosed

datatype SDPType = SDPTypeOffer | SDPTypePranswer | SDPTypeAnswer | SDPTypeRollback

record SessionDescription =
  sdp_type :: SDPType
  sdp_text :: string

text \<open>
  An unbuffered channel, as far as its users can tell: the sends that have started and
  wait for a receiver, and the values receivers have taken so far. A send adds a waiting
  sender; a receive takes one value from a waiting sender, and waits (\<open>None\<close>) when there
  is none.
\<close>

record chan =
  waiting_sends :: nat
  delivered :: nat

definition chan_send :: "chan \<Rightarrow> chan" where
  "chan_send c = c\<lparr>waiting_sends := waiting_sends c + 1\<rparr>"

definition chan_recv :: "chan \<Rightarrow> chan option" where
  "chan_recv c =
     (if waiting_sends c = 0 then None
      else Some (c\<lparr>waiting_sends := waiting_sends c - 1, delivered := delivered c + 1\<rparr>))"

text \<open>
  What reaches the \<open>Signal\<close> interface, and what the libraries answer. The answers of
  the WebRTC library, of \<open>encoding/json\<close> and of the \<open>Signal\<close> implementation are not
  decided by this file; they are the fields of \<open>peer_env\<close>.
\<close>

datatype signal_msg = MsgSDP bytes | MsgCandidate bytes

record peer_env =
  json_Unmarshal :: "bytes \<Rightarrow> error + SessionDescription"
  json_Marshal :: "SessionDescription \<Rightarrow> error + bytes"
  SetRemoteDescription :: "SessionDescription \<Rightarrow> error option"
  CreateAnswer :: "error + SessionDescription"
  SetLocalDescription :: "SessionDescription \<Rightarrow> error option"
  SendSDP :: "bytes \<Rightarrow> error option"
  SendCandidate :: "bytes \<Rightarrow> error option"

text \<open>
  The transport: the candidate buffer, what the connection reports
  (\<open>RemoteDescription()\<close>, \<open>ConnectionState()\<close>), the channel behind \<open>Done()\<close>, the
  messages the \<open>Signal\<close> accepted, and the log. A candidate is its candidate string
  (\<open>candidate.ToJSON().Candidate\<close>); \<open>None\<close> is the nil candidate.
\<close>

record WebRTC =
  candidates :: "string list"
  RemoteDescription :: "SessionDescription option"
  LocalDescription :: "SessionDescription option"
  ConnectionState :: PeerConnectionState
  shutdownChan :: chan
  published :: "signal_msg list"
  peer_logged :: "log_entry list"

definition peer_log_Error :: "error \<Rightarrow> WebRTC \<Rightarrow> WebRTC" where
  "peer_log_Error e p = p\<lparr>peer_logged := peer_logged p @ [LogError e]\<rparr>"

definition signalSendCandidate :: "peer_env \<Rightarrow> bytes \<Rightarrow> WebRTC \<Rightarrow> error option \<times> WebRTC" where
  "signalSendCandidate env payload p =
     (if ConnectionState p = StateClosed then (None, p)
      else case SendCandidate env payload of
             Some err \<Rightarrow> (Some err, p)
           | None \<Rightarrow> (None, p\<lparr>published := published p @ [MsgCandidate payload]\<rparr>))"

definition onConnICECandidate :: "peer_env \<Rightarrow> string option \<Rightarrow> WebRTC \<Rightarrow> WebRTC" where
  "onConnICECandidate env candidate p =
     (case candidate of
        None \<Rightarrow> p
      | Some c \<Rightarrow>
          if RemoteDescription p = None then p\<lparr>candidates := candidates p @ [c]\<rparr>
          else (case signalSendCandidate env c p of
                  (Some err, p') \<Rightarrow> peer_log_Error err p'
                | (None, p') \<Rightarrow> p'))"

definition onSignalSDPOffer :: "peer_env \<Rightarrow> WebRTC \<Rightarrow> error option \<times> WebRTC" where
  "onSignalSDPOffer env p =
     (case CreateAnswer env of
        Inl err \<Rightarrow> (Some err, p)
      | Inr answer \<Rightarrow>
          (case json_Marshal env answer of
             Inl err \<Rightarrow> (Some err, p)
           | Inr payload \<Rightarrow>
               (case SendSDP env payload of
                  Some err \<Rightarrow> (Some err, p)
                | None \<Rightarrow>
                    (case SetLocalDescription env answer of
                       Some err \<Rightarrow> (Some err, p\<lparr>published := published p @ [MsgSDP payload]\<rparr>)
                     | None \<Rightarrow>
                         (None, p\<lparr>published := published p @ [MsgSDP payload],
                                  LocalDescription := Some answer\<rparr>)))))"

text \<open>The loop at the end of \<open>onSignalSDP\<close> over the buffered candidates.\<close>

fun send_buffered :: "peer_env \<Rightarrow> string list \<Rightarrow> WebRTC \<Rightarrow> WebRTC" where
  "send_buffered env [] p = p"
| "send_buffered env (candidate # rest) p =
     (case signalSendCandidate env candidate p of
        (Some err, p') \<Rightarrow> peer_log_Error err p'
      | (None, p') \<Rightarrow> send_buffered env rest p')"

definition onSignalSDP :: "peer_env \<Rightarrow> bytes \<Rightarrow> WebRTC \<Rightarrow> WebRTC" where
  "onSignalSDP env payload p =
     (case json_Unmarshal env payload of
        Inl err \<Rightarrow> peer_log_Error err p
      | Inr sdp \<Rightarrow>
          (case SetRemoteDescription env sdp of
             Some err \<Rightarrow> peer_log_Error err p
           | None \<Rightarrow>
               let p1 = p\<lparr>RemoteDescription := Some sdp\<rparr>
               in if sdp_type sdp = SDPTypeOffer
                  then (case onSignalSDPOffer env p1 of
                          (Some err, p2) \<Rightarrow> peer_log_Error err p2
                        | (None, p2) \<Rightarrow> send_buffered env (candidates p2) p2)
                  else send_buffered env (candidates p1) p1))"

fun PeerConnectionState_String :: "PeerConnectionState \<Rightarrow> string" where
  "PeerConnectionState_String StateNew = ''new''"
| "PeerConnectionState_String StateConnecting = ''connecting''"
| "PeerConnectionState_String StateConnected = ''connected''"
| "PeerConnectionState_String StateDisconnected = ''disconnected''"
| "PeerConnectionState_String StateFailed = ''failed''"
| "PeerConnectionState_String StateClosed = ''closed''"

definition onConnStateChange :: "PeerConnectionState \<Rightarrow> WebRTC \<Rightarrow> WebRTC" where
  "onConnStateChange state p =
     (let p1 = p\<lparr>peer_logged := peer_logged p @
                   [LogInfo (''connection state changed: '' @ PeerConnectionState_String state)]\<rparr>
      in if state = StateDisconnected \<or> state = StateFailed \<or> state = StateClosed
         then p1\<lparr>shutdownChan := chan_send (shutdownChan p1)\<rparr>
         else p1)"

text \<open>
  A run of the connection: the library records each new state and then calls the handler
  registered with \<open>OnConnectionStateChange\<close>.
\<close>

definition connection_reports :: "PeerConnectionState \<Rightarrow> WebRTC \<Rightarrow> WebRTC" where
  "connection_reports state p = onConnStateChange state (p\<lparr>ConnectionState := state\<rparr>)"

definition state_changes :: "PeerConnectionState list \<Rightarrow> WebRTC \<Rightarrow> WebRTC" where
  "state_changes events p = foldl (\<lambda>q state. connection_reports state q) p events"

text \<open>
  The terminal states, and concrete inputs for the examples: a transport that has done
  nothing yet, one that has buffered two candidates, one that has a remote description
  installed as well, and one whose connection is closed; a world in which every library
  call and every send succeeds and each SDP received is an offer, one in which each SDP
  received is an answer, and one in which the \<open>Signal\<close> refuses to send an SDP.
\<close>

definition terminal :: "PeerConnectionState \<Rightarrow> bool" where
  "terminal state = (state = StateDisconnected \<or> state = StateFailed \<or> state = StateClosed)"

definition fresh_peer :: WebRTC where
  "fresh_peer =
     \<lparr>candidates = [], RemoteDescription = None, LocalDescription = None,
      ConnectionState = StateNew, shutdownChan = \<lparr>waiting_sends = 0, delivered = 0\<rparr>,
      published = [], peer_logged = []\<rparr>"

definition obliging_env :: peer_env where
  "obliging_env =
     \<lparr>json_Unmarshal = (\<lambda>b. Inr \<lparr>sdp_type = SDPTypeOffer, sdp_text = b\<rparr>),
      json_Marshal = (\<lambda>d. Inr (sdp_text d)),
      SetRemoteDescription = (\<lambda>d. None),
      CreateAnswer = Inr \<lparr>sdp_type = SDPTypeAnswer, sdp_text = ''answer''\<rparr>,
      SetLocalDescription = (\<lambda>d. None),
      SendSDP = (\<lambda>b. None),
      SendCandidate = (\<lambda>b. None)\<rparr>"

definition buffering_peer :: WebRTC where
  "buffering_peer = fresh_peer\<lparr>candidates := [''c1'', ''c2''], ConnectionState := StateConnecting\<rparr>"

definition failing_env :: peer_env where
  "failing_env = obliging_env\<lparr>SendSDP := (\<lambda>b. Some ErrTransport)\<rparr>"

definition answering_env :: peer_env where
  "answering_env =
     obliging_env\<lparr>json_Unmarshal := (\<lambda>b. Inr \<lparr>sdp_type = SDPTypeAnswer, sdp_text = b\<rparr>)\<rparr>"

definition installed_peer :: WebRTC where
  "installed_peer =
     buffering_peer\<lparr>RemoteDescription := Some \<lparr>sdp_type = SDPTypeOffer, sdp_text = ''offer''\<rparr>\<rparr>"

definition closed_peer :: WebRTC where
  "closed_peer = installed_peer\<lparr>ConnectionState := StateClosed\<rparr>"

section \<open>The signaling mailbox (pkg/signal/file_io.go)\<close>

record FileIoConfig =
  APIKey :: string
  SessionID :: string
  InstanceID :: string

record fileIoNode =
  Key :: string
  Name :: string

record fileIoFiles =
  Nodes :: "fileIoNode list"

record fileIoFileContent =
  Type :: string
  Payload :: bytes

definition fileIoFileContentTypePing :: string where
  "fileIoFileContentTypePing = ''ping''"

definition fileIoFileContentTypeSDP :: string where
  "fileIoFileContentTypeSDP = ''sdp''"

definition fileIoFileContentTypeCandidate :: string where
  "fileIoFileContentTypeCandidate = ''candidate''"

subsection \<open>HTTP\<close>

text \<open>
  A request as \<open>request\<close> builds it; the body of an upload is the multipart form with the
  named file and the three fields. The server is not part of the repository: \<open>server env n\<close>
  is what \<open>http.DefaultClient.Do\<close> returns for the \<open>n\<close>-th request sent (counting from
  \<open>0\<close>), a transport error or a response. \<open>parse_files\<close> and \<open>parse_content\<close> are what
  \<open>encoding/json\<close> decodes from a body that is not empty, and \<open>NewRequest_err\<close> is the answer
  of \<open>http.NewRequest\<close> for a URL. The waiting times (the delayed unlock of the request
  mutex, the sleep after a 429) are not modelled.
\<close>

datatype http_method = MethodGet | MethodPost | MethodDelete

record multipart_form =
  boundary :: string
  form_file_name :: string
  form_file :: fileIoFileContent
  form_fields :: "(string \<times> string) list"

record http_request =
  req_method :: http_method
  req_url :: string
  req_header :: "(string \<times> string) list"
  req_body :: "multipart_form option"

record http_response =
  StatusCode :: nat
  resp_body :: bytes

datatype http_reply = TransportError error | Response http_response

record http_env =
  server :: "nat \<Rightarrow> http_reply"
  NewRequest_err :: "string \<Rightarrow> error option"
  parse_files :: "bytes \<Rightarrow> error + fileIoFiles"
  parse_content :: "bytes \<Rightarrow> error + fileIoFileContent"

definition StatusOK :: nat where "StatusOK = 200"

definition StatusForbidden :: nat where "StatusForbidden = 403"

definition StatusNotFound :: nat where "StatusNotFound = 404"

definition StatusTooManyRequests :: nat where "StatusTooManyRequests = 429"

text \<open>
  \<open>json.NewDecoder(body).Decode(v)\<close>: a body without any byte gives \<open>io.EOF\<close>; any other
  body gives what the library decodes.
\<close>

definition json_Decode :: "(bytes \<Rightarrow> error + 'a) \<Rightarrow> bytes \<Rightarrow> error + 'a" where
  "json_Decode parse body = (if body = [] then Inl EOF else parse body)"

text \<open>
  The loop of \<open>request\<close>: send, and send again for as long as the answer is a 429. The
  loop need not end; \<open>None\<close> is a run that never returns. \<open>tr\<close> lists the requests sent
  so far.
\<close>

partial_function (option) request_loop ::
  "(nat \<Rightarrow> http_reply) \<Rightarrow> http_request \<Rightarrow> http_request list \<Rightarrow>
   ((error + http_response) \<times> http_request list) option" where
  "request_loop srv req tr =
     (case srv (length tr) of
        TransportError err \<Rightarrow> Some (Inl err, tr @ [req])
      | Response resp \<Rightarrow>
          if StatusCode resp = StatusTooManyRequests then request_loop srv req (tr @ [req])
          else Some (Inr resp, tr @ [req]))"

definition build_request ::
  "FileIoConfig \<Rightarrow> http_method \<Rightarrow> string \<Rightarrow> (string \<times> string) list \<Rightarrow>
   multipart_form option \<Rightarrow> http_request" where
  "build_request cfg method urn headers body =
     \<lparr>req_method = method, req_url = ''https://file.io'' @ urn,
      req_header = headers @ [(''Authorization'', APIKey cfg)], req_body = body\<rparr>"

definition request ::
  "FileIoConfig \<Rightarrow> http_env \<Rightarrow> http_method \<Rightarrow> string \<Rightarrow> (string \<times> string) list \<Rightarrow>
   multipart_form option \<Rightarrow> http_request list \<Rightarrow>
   ((error + http_response) \<times> http_request list) option" where
  "request cfg env method urn headers body tr =
     (case NewRequest_err env (''https://file.io'' @ urn) of
        Some err \<Rightarrow> Some (Inl err, tr)
      | None \<Rightarrow> request_loop (server env) (build_request cfg method urn headers body) tr)"

definition findFiles ::
  "FileIoConfig \<Rightarrow> http_env \<Rightarrow> string \<Rightarrow> http_request list \<Rightarrow>
   ((error + fileIoFiles) \<times> http_request list) option" where
  "findFiles cfg env pattern tr =
     (let urn = ''/?search='' @ pattern @ ''&sort=created:asc'';
          headers = [(''Accept'', ''application/json'')]
      in case request cfg env MethodGet urn headers None tr of
           None \<Rightarrow> None
         | Some (Inl err, tr') \<Rightarrow> Some (Inl err, tr')
         | Some (Inr resp, tr') \<Rightarrow>
             if StatusCode resp \<noteq> StatusOK
             then Some (Inl (ErrResponseStatus (StatusCode resp)), tr')
             else Some (json_Decode (parse_files env) (resp_body resp), tr'))"

definition downloadFile ::
  "FileIoConfig \<Rightarrow> http_env \<Rightarrow> string \<Rightarrow> http_request list \<Rightarrow>
   ((error + fileIoFileContent) \<times> http_request list) option" where
  "downloadFile cfg env fileKey tr =
     (let urn = ''/'' @ fileKey;
          headers = [(''Accept'', ''*/*'')]
      in case request cfg env MethodGet urn headers None tr of
           None \<Rightarrow> None
         | Some (Inl err, tr') \<Rightarrow> Some (Inl err, tr')
         | Some (Inr resp, tr') \<Rightarrow>
             if StatusCode resp \<noteq> StatusOK \<and> StatusCode resp \<noteq> StatusNotFound
             then Some (Inl (ErrResponseStatus (StatusCode resp)), tr')
             else Some (json_Decode (parse_content env) (resp_body resp), tr'))"

definition deleteFile ::
  "FileIoConfig \<Rightarrow> http_env \<Rightarrow> string \<Rightarrow> http_request list \<Rightarrow>
   (error option \<times> http_request list) option" where
  "deleteFile cfg env fileKey tr =
     (let urn = ''/'' @ fileKey;
          headers = [(''Accept'', ''application/json'')]
      in case request cfg env MethodDelete urn headers None tr of
           None \<Rightarrow> None
         | Some (Inl err, tr') \<Rightarrow> Some (Some err, tr')
         | Some (Inr resp, tr') \<Rightarrow>
             if StatusCode resp \<noteq> StatusOK \<and> StatusCode resp \<noteq> StatusForbidden
             then Some (Some (ErrResponseStatus (StatusCode resp)), tr')
             else Some (None, tr'))"

text \<open>
  \<open>uploadFile\<close> writes the form into a buffer in memory first; those writes do not fail
  and have no branch here.
\<close>

definition uploadFile ::
  "FileIoConfig \<Rightarrow> http_env \<Rightarrow> string \<Rightarrow> fileIoFileContent \<Rightarrow> http_request list \<Rightarrow>
   (error option \<times> http_request list) option" where
  "uploadFile cfg env name content tr =
     (let boundary = ''---011000010111000001101001'';
          form = \<lparr>boundary = boundary, form_file_name = name, form_file = content,
                  form_fields = [(''expires'', ''10m''), (''maxDownloads'', ''1''),
                                 (''autoDelete'', ''true'')]\<rparr>;
          headers = [(''Accept'', ''application/json''),
                     (''Content-Type'', ''multipart/form-data; boundary='' @ boundary)]
      in case request cfg env MethodPost ''/'' headers (Some form) tr of
           None \<Rightarrow> None
         | Some (Inl err, tr') \<Rightarrow> Some (Some err, tr')
         | Some (Inr resp, tr') \<Rightarrow>
             if StatusCode resp \<noteq> StatusOK
             then Some (Some (ErrResponseStatus (StatusCode resp)), tr')
             else Some (None, tr'))"

definition findPing ::
  "FileIoConfig \<Rightarrow> http_env \<Rightarrow> http_request list \<Rightarrow>
   ((error + fileIoFiles) \<times> http_request list) option" where
  "findPing cfg env tr =
     (let pattern = SessionID cfg @ ''_'' @ fileIoFileContentTypePing
      in findFiles cfg env pattern tr)"

definition uploadPing ::
  "FileIoConfig \<Rightarrow> http_env \<Rightarrow> http_request list \<Rightarrow>
   (error option \<times> http_request list) option" where
  "uploadPing cfg env tr =
     (let filename = SessionID cfg @ ''_'' @ fileIoFileContentTypePing @ ''_'' @ InstanceID cfg
                     @ ''.json''
      in uploadFile cfg env filename \<lparr>Type = fileIoFileContentTypePing, Payload = []\<rparr> tr)"

subsection \<open>Role election and the polling loop\<close>

text \<open>
  The state of the signaling component: the requests sent, the log, and the state \<open>app\<close>
  owned by whoever registered the handlers (the handlers may send requests themselves).
\<close>

record 'a signaling =
  sent :: "http_request list"
  sig_logged :: "log_entry list"
  app :: 'a

definition sig_log_Error :: "error \<Rightarrow> 'a signaling \<Rightarrow> 'a signaling" where
  "sig_log_Error e st = st\<lparr>sig_logged := sig_logged st @ [LogError e]\<rparr>"

text \<open>The loop of \<open>Ping\<close> (and of \<open>cleanUp\<close>) that deletes every node found.\<close>

fun delete_nodes ::
  "FileIoConfig \<Rightarrow> http_env \<Rightarrow> fileIoNode list \<Rightarrow> 'a signaling \<Rightarrow> 'a signaling option" where
  "delete_nodes cfg env [] st = Some st"
| "delete_nodes cfg env (node # nodes) st =
     (case deleteFile cfg env (Key node) (sent st) of
        None \<Rightarrow> None
      | Some (Some err, sent') \<Rightarrow> delete_nodes cfg env nodes (sig_log_Error err (st\<lparr>sent := sent'\<rparr>))
      | Some (None, sent') \<Rightarrow> delete_nodes cfg env nodes (st\<lparr>sent := sent'\<rparr>))"

definition Ping ::
  "FileIoConfig \<Rightarrow> http_env \<Rightarrow> 'a signaling \<Rightarrow> (error option \<times> 'a signaling) option" where
  "Ping cfg env st =
     (case findPing cfg env (sent st) of
        None \<Rightarrow> None
      | Some (Inl err, sent1) \<Rightarrow> Some (Some err, st\<lparr>sent := sent1\<rparr>)
      | Some (Inr found, sent1) \<Rightarrow>
          if length (Nodes found) = 0
          then (case uploadPing cfg env sent1 of
                  None \<Rightarrow> None
                | Some (Some err, sent2) \<Rightarrow> Some (Some err, st\<lparr>sent := sent2\<rparr>)
                | Some (None, sent2) \<Rightarrow> Some (Some ErrNoCandidatesFound, st\<lparr>sent := sent2\<rparr>))
          else (case delete_nodes cfg env (Nodes found) (st\<lparr>sent := sent1\<rparr>) of
                  None \<Rightarrow> None
                | Some st' \<Rightarrow> Some (None, st')))"

fun isPrefix :: "string \<Rightarrow> string \<Rightarrow> bool" where
  "isPrefix [] s = True"
| "isPrefix (c # cs) [] = False"
| "isPrefix (c # cs) (d # ds) = (c = d \<and> isPrefix cs ds)"

fun strings_Contains :: "string \<Rightarrow> string \<Rightarrow> bool" where
  "strings_Contains [] substr = (substr = [])"
| "strings_Contains (c # cs) substr = (isPrefix substr (c # cs) \<or> strings_Contains cs substr)"

text \<open>
  The handlers registered with \<open>OnSDP\<close> and \<open>OnCandidate\<close>. A handler may not return
  (\<open>None\<close>). The loop of \<open>sniffCandidates\<close> returns, besides the state, the list of the
  handler calls it made: which handler, for which node, with which downloaded content.
\<close>

record 'a handlers =
  sdpHandler :: "bytes \<Rightarrow> 'a signaling \<Rightarrow> 'a signaling option"
  candidateHandler :: "bytes \<Rightarrow> 'a signaling \<Rightarrow> 'a signaling option"

datatype handler_kind = SDPHandler | CandidateHandler

record handler_call =
  call_handler :: handler_kind
  call_node :: fileIoNode
  call_content :: fileIoFileContent
  call_payload :: bytes

fun sniff_nodes ::
  "FileIoConfig \<Rightarrow> http_env \<Rightarrow> 'a handlers \<Rightarrow> fileIoNode list \<Rightarrow> 'a signaling \<Rightarrow>
   (handler_call list \<times> 'a signaling) option" where
  "sniff_nodes cfg env h [] st = Some ([], st)"
| "sniff_nodes cfg env h (node # nodes) st =
     (if strings_Contains (Name node) (InstanceID cfg) then sniff_nodes cfg env h nodes st
      else case downloadFile cfg env (Key node) (sent st) of
        None \<Rightarrow> None
      | Some (Inl err, sent') \<Rightarrow>
          sniff_nodes cfg env h nodes (sig_log_Error err (st\<lparr>sent := sent'\<rparr>))
      | Some (Inr content, sent') \<Rightarrow>
          if Type content = fileIoFileContentTypeSDP
          then (case sdpHandler h (Payload content) (st\<lparr>sent := sent'\<rparr>) of
                  None \<Rightarrow> None
                | Some st' \<Rightarrow>
                    map_option
                      (\<lambda>(calls, st''). (\<lparr>call_handler = SDPHandler, call_node = node,
                          call_content = content, call_payload = Payload content\<rparr> # calls, st''))
                      (sniff_nodes cfg env h nodes st'))
          else if Type content = fileIoFileContentTypeCandidate
          then (case candidateHandler h (Payload content) (st\<lparr>sent := sent'\<rparr>) of
                  None \<Rightarrow> None
                | Some st' \<Rightarrow>
                    map_option
                      (\<lambda>(calls, st''). (\<lparr>call_handler = CandidateHandler, call_node = node,
                          call_content = content, call_payload = Payload content\<rparr> # calls, st''))
                      (sniff_nodes cfg env h nodes st'))
          else sniff_nodes cfg env h nodes (st\<lparr>sent := sent'\<rparr>))"

definition sniffCandidates ::
  "FileIoConfig \<Rightarrow> http_env \<Rightarrow> 'a handlers \<Rightarrow> 'a signaling \<Rightarrow>
   (error option \<times> handler_call list \<times> 'a signaling) option" where
  "sniffCandidates cfg env h st =
     (case findFiles cfg env (SessionID cfg) (sent st) of
        None \<Rightarrow> None
      | Some (Inl err, sent1) \<Rightarrow> Some (Some err, [], st\<lparr>sent := sent1\<rparr>)
      | Some (Inr found, sent1) \<Rightarrow>
          map_option (\<lambda>(calls, st'). (None, calls, st'))
            (sniff_nodes cfg env h (Nodes found) (st\<lparr>sent := sent1\<rparr>)))"

subsection \<open>Names used in the statements, and example servers\<close>

text \<open>
  \<open>too_many\<close> holds of a reply that is a 429 response. \<open>search_request\<close>,
  \<open>delete_request\<close> and \<open>ping_upload_request\<close> name the requests as \<open>findFiles\<close>,
  \<open>deleteFile\<close> and \<open>uploadPing\<close> build them. \<open>dispatch_ok\<close> says of a handler call that
  its node is not the instance's own, that it passes the payload of the content, and that
  the handler fits the type of the content. The other definitions are concrete inputs
  for the examples: servers that answer every request with 404 or with 403, one that
  lists nothing and accepts every upload, one that lists one ping entry and answers 500
  afterwards, and one (\<open>poll_env\<close>) that lists an entry of the instance itself followed by
  four entries of the peer, and serves an \<open>sdp\<close> blob for the first of them, answers 500
  for the second, and serves a \<open>ping\<close> blob and a \<open>candidate\<close> blob for the last two;
  \<open>poll_calls\<close> lists the two handler calls of a poll of that server. \<open>download_request\<close>
  names the request as \<open>downloadFile\<close> builds it. \<open>json_stub\<close> decodes the body \<open>{}\<close> to
  the empty content; the recording handlers append each call to \<open>app\<close>.
\<close>

definition too_many :: "http_reply \<Rightarrow> bool" where
  "too_many reply =
     (case reply of TransportError err \<Rightarrow> False
      | Response resp \<Rightarrow> StatusCode resp = StatusTooManyRequests)"

definition example_cfg :: FileIoConfig where
  "example_cfg = \<lparr>APIKey = ''key'', SessionID = ''sid'', InstanceID = ''me''\<rparr>"

definition json_stub :: "bytes \<Rightarrow> error + fileIoFileContent" where
  "json_stub body = (if body = ''{}'' then Inr \<lparr>Type = [], Payload = []\<rparr> else Inl ErrJSON)"

definition not_found_env :: "bytes \<Rightarrow> http_env" where
  "not_found_env body =
     \<lparr>server = (\<lambda>n. Response \<lparr>StatusCode = 404, resp_body = body\<rparr>),
      NewRequest_err = (\<lambda>u. None),
      parse_files = (\<lambda>b. Inl ErrJSON),
      parse_content = json_stub\<rparr>"

definition forbidden_env :: http_env where
  "forbidden_env =
     \<lparr>server = (\<lambda>n. Response \<lparr>StatusCode = 403, resp_body = []\<rparr>),
      NewRequest_err = (\<lambda>u. None),
      parse_files = (\<lambda>b. Inl ErrJSON),
      parse_content = json_stub\<rparr>"

definition search_request :: "FileIoConfig \<Rightarrow> string \<Rightarrow> http_request" where
  "search_request cfg pattern =
     build_request cfg MethodGet (''/?search='' @ pattern @ ''&sort=created:asc'')
       [(''Accept'', ''application/json'')] None"

definition delete_request :: "FileIoConfig \<Rightarrow> string \<Rightarrow> http_request" where
  "delete_request cfg fileKey =
     build_request cfg MethodDelete (''/'' @ fileKey) [(''Accept'', ''application/json'')] None"

definition download_request :: "FileIoConfig \<Rightarrow> string \<Rightarrow> http_request" where
  "download_request cfg fileKey =
     build_request cfg MethodGet (''/'' @ fileKey) [(''Accept'', ''*/*'')] None"

definition ping_upload_request :: "FileIoConfig \<Rightarrow> http_request" where
  "ping_upload_request cfg =
     build_request cfg MethodPost ''/''
       [(''Accept'', ''application/json''),
        (''Content-Type'', ''multipart/form-data; boundary=---011000010111000001101001'')]
       (Some \<lparr>boundary = ''---011000010111000001101001'',
              form_file_name = SessionID cfg @ ''_ping_'' @ InstanceID cfg @ ''.json'',
              form_file = \<lparr>Type = ''ping'', Payload = []\<rparr>,
              form_fields = [(''expires'', ''10m''), (''maxDownloads'', ''1''),
                             (''autoDelete'', ''true'')]\<rparr>)"

definition listing_env :: http_env where
  "listing_env =
     \<lparr>server = (\<lambda>n. if n = 0 then Response \<lparr>StatusCode = 200, resp_body = ''listing''\<rparr>
                     else Response \<lparr>StatusCode = 500, resp_body = []\<rparr>),
      NewRequest_err = (\<lambda>u. None),
      parse_files = (\<lambda>b. Inr \<lparr>Nodes = [\<lparr>Key = ''k1'', Name = ''sid_ping_other.json''\<rparr>]\<rparr>),
      parse_content = json_stub\<rparr>"

definition idle_signaling :: "unit signaling" where
  "idle_signaling = \<lparr>sent = [], sig_logged = [], app = ()\<rparr>"

definition dispatch_ok :: "FileIoConfig \<Rightarrow> handler_call \<Rightarrow> bool" where
  "dispatch_ok cfg c =
     (\<not> strings_Contains (Name (call_node c)) (InstanceID cfg) \<and>
      call_payload c = Payload (call_content c) \<and>
      Type (call_content c) =
        (case call_handler c of SDPHandler \<Rightarrow> ''sdp'' | CandidateHandler \<Rightarrow> ''candidate''))"

definition poll_env :: http_env where
  "poll_env =
     \<lparr>server = (\<lambda>n. if n = 0 then Response \<lparr>StatusCode = 200, resp_body = ''listing''\<rparr>
                     else if n = 1 then Response \<lparr>StatusCode = 200, resp_body = ''blob1''\<rparr>
                     else if n = 2 then Response \<lparr>StatusCode = 500, resp_body = []\<rparr>
                     else if n = 3 then Response \<lparr>StatusCode = 200, resp_body = ''blob3''\<rparr>
                     else Response \<lparr>StatusCode = 200, resp_body = ''blob4''\<rparr>),
      NewRequest_err = (\<lambda>u. None),
      parse_files = (\<lambda>b. Inr \<lparr>Nodes = [\<lparr>Key = ''k0'', Name = ''sid_sdp_me.json''\<rparr>,
                                        \<lparr>Key = ''k1'', Name = ''sid_sdp_other.json''\<rparr>,
                                        \<lparr>Key = ''k2'', Name = ''sid_candidate_other.json''\<rparr>,
                                        \<lparr>Key = ''k3'', Name = ''sid_ping_other.json''\<rparr>,
                                        \<lparr>Key = ''k4'', Name = ''sid_candidate_other.json''\<rparr>]\<rparr>),
      parse_content = (\<lambda>b. if b = ''blob1'' then Inr \<lparr>Type = ''sdp'', Payload = ''offer''\<rparr>
                            else if b = ''blob3'' then Inr \<lparr>Type = ''ping'', Payload = []\<rparr>
                            else Inr \<lparr>Type = ''candidate'', Payload = ''cand''\<rparr>)\<rparr>"

definition poll_calls :: "handler_call list" where
  "poll_calls =
     [\<lparr>call_handler = SDPHandler,
       call_node = \<lparr>Key = ''k1'', Name = ''sid_sdp_other.json''\<rparr>,
       call_content = \<lparr>Type = ''sdp'', Payload = ''offer''\<rparr>,
       call_payload = ''offer''\<rparr>,
      \<lparr>call_handler = CandidateHandler,
       call_node = \<lparr>Key = ''k4'', Name = ''sid_candidate_other.json''\<rparr>,
       call_content = \<lparr>Type = ''candidate'', Payload = ''cand''\<rparr>,
       call_payload = ''cand''\<rparr>]"

definition recording_handlers :: "(handler_kind \<times> bytes) list handlers" where
  "recording_handlers =
     \<lparr>sdpHandler = (\<lambda>payload st. Some (st\<lparr>app := app st @ [(SDPHandler, payload)]\<rparr>)),
      candidateHandler = (\<lambda>payload st. Some (st\<lparr>app := app st @ [(CandidateHandler, payload)]\<rparr>))\<rparr>"

definition polling_start :: "(handler_kind \<times> bytes) list signaling" where
  "polling_start = \<lparr>sent = [], sig_logged = [], app = []\<rparr>"

definition quiet_env :: http_env where
  "quiet_env =
     \<lparr>server = (\<lambda>n. Response \<lparr>StatusCode = 200, resp_body = ''{}''\<rparr>),
      NewRequest_err = (\<lambda>u. None),
      parse_files = (\<lambda>b. Inr \<lparr>Nodes = []\<rparr>),
      parse_content = json_stub\<rparr>"

section \<open>Properties of the file manager\<close>

declare shift_from.simps [simp del]
declare decimal.simps [simp del]

lemma uint8_of_byte_of [simp]: "uint8_of (byte_of x) = x"
proof -
  have "unat x < 256" using unsigned_less [of x, where ?'a = nat] by simp
  then show ?thesis by (simp add: uint8_of_def byte_of_def)
qed

lemma unat_uint8_of_nat: "unat (of_nat n :: uint8) = n mod 256"
  by (simp add: unat_of_nat)

lemma writeFilename_ok:
  "wfault w = None \<Longrightarrow>
   writeFilename name w =
     (None, w\<lparr>written := written w @ byte_of (of_nat (length name)) # name\<rparr>)"
  by (simp add: writeFilename_def binary_Write_uint8_def binary_Write_bytes_def io_Write_def)

lemma faulty_shift_move [simp]: "faulty (shift_move path v i p s) = faulty s"
  by (simp add: shift_move_def os_Remove_def os_Rename_def log_Error_def Let_def
      split: option.splits)

lemma faulty_shift_body [simp]: "faulty (shift_body path v i s) = faulty s"
  by (simp add: shift_body_def os_Stat_def log_Error_def Let_def)


lemma faulty_shift_from [simp]: "faulty (shift_from path v i s) = faulty s"
proof (induction path v i s rule: shift_from.induct)
  case (1 path v i s)
  show ?case
  proof (cases "i \<ge> 0")
    case True
    with 1 show ?thesis by (subst shift_from.simps) simp
  next
    case False
    then show ?thesis by (subst shift_from.simps) simp
  qed
qed

lemma faulty_shiftFileVersions [simp]: "faulty (shiftFileVersions cfg path s) = faulty s"
  by (simp add: shiftFileVersions_def Let_def)

lemma read_header:
  assumes "length name \<le> 255"
  shows "binary_Read_uint8 \<lparr>pending = byte_of (of_nat (length name)) # name @ c, rend = e\<rparr>
         = (Inr (of_nat (length name)), \<lparr>pending = name @ c, rend = e\<rparr>)"
  by (simp add: binary_Read_uint8_def io_ReadFull_def)

lemma read_name:
  shows "binary_Read_bytes \<lparr>pending = name @ c, rend = e\<rparr> (length name)
         = (None, name, \<lparr>pending = c, rend = e\<rparr>)"
  by (simp add: binary_Read_bytes_def io_ReadFull_def)

lemma of_char_digit: "d < 10 \<Longrightarrow> of_char (digit d) = (48 + d :: nat)"
  by (simp add: digit_def)

lemma decimal_value_decimal: "decimal_value (decimal n) = n"
proof (induction n rule: decimal.induct)
  case (1 n)
  show ?case
  proof (cases "n < 10")
    case True
    then show ?thesis
      by (subst decimal.simps) (simp add: decimal_value_def of_char_digit)
  next
    case False
    with 1 have "decimal_value (decimal (n div 10)) = n div 10" by simp
    moreover have "n mod 10 < 10" by simp
    ultimately show ?thesis using False
      by (subst decimal.simps) (simp add: decimal_value_def of_char_digit)
  qed
qed

lemma decimal_inj: "decimal m = decimal n \<Longrightarrow> m = n"
  by (metis decimal_value_decimal)


lemma version_path_inj: "version_path path m = version_path path n \<Longrightarrow> m = n"
  by (auto simp: version_path_def Sprintf_d_def split: if_splits dest: decimal_inj)

lemma version_path_eq_iff [simp]: "version_path path m = version_path path n \<longleftrightarrow> m = n"
  using version_path_inj by blast

lemma old_path: "0 \<le> i \<Longrightarrow> (if i \<noteq> 0 then path @ ''.'' @ Sprintf_d i else path) = version_path path (nat i)"
  by (simp add: version_path_def)

lemma new_path: "0 \<le> i \<Longrightarrow> path @ ''.'' @ Sprintf_d (i + 1) = version_path path (Suc (nat i))"
  by (simp add: version_path_def nat_add_distrib add.commute)

lemma shift_body_oldest:
  assumes "0 \<le> v" "\<not> faulty s (version_path path (nat v))"
  shows "shift_body path v v s = s\<lparr>files := (files s)(version_path path (nat v) := None)\<rparr>"
proof (cases "files s (version_path path (nat v))")
  case None
  then have "(files s)(version_path path (nat v) := None) = files s"
    by (auto simp: fun_eq_iff)
  with None assms show ?thesis
    by (simp add: shift_body_def Let_def old_path os_Stat_def)
next
  case (Some c)
  with assms show ?thesis
    by (simp add: shift_body_def Let_def old_path os_Stat_def shift_move_def os_Remove_def)
qed

lemma shift_body_other:
  assumes "0 \<le> i" "i < v"
    and "\<not> faulty s (version_path path (nat i))"
    and "\<not> faulty s (version_path path (Suc (nat i)))"
    and "files s (version_path path (Suc (nat i))) = None"
  shows "shift_body path v i s =
     s\<lparr>files := (files s)(version_path path (Suc (nat i)) := files s (version_path path (nat i)),
                           version_path path (nat i) := None)\<rparr>"
proof (cases "files s (version_path path (nat i))")
  case None
  have "(files s)(version_path path (Suc (nat i)) := None, version_path path (nat i) := None) = files s"
    using None assms(5) by (auto simp: fun_eq_iff)
  with None assms show ?thesis
    by (simp add: shift_body_def Let_def old_path os_Stat_def)
next
  case (Some c)
  have "(files s)(version_path path (nat i) := None, version_path path (Suc (nat i)) \<mapsto> c)
      = (files s)(version_path path (Suc (nat i)) \<mapsto> c, version_path path (nat i) := None)"
    by (rule fun_upd_twist) simp
  with Some assms show ?thesis
    by (simp add: shift_body_def Let_def old_path new_path [simplified] os_Stat_def
        shift_move_def os_Rename_def)
qed

lemma shift_from_spec:
  assumes "- 1 \<le> i" "i \<le> v"
    and "\<forall>j. int j \<le> v \<longrightarrow> \<not> faulty s (version_path path j)"
    and "i < v \<longrightarrow> files s (version_path path (nat (i + 1))) = None"
  shows "(0 \<le> i \<longrightarrow> files (shift_from path v i s) (version_path path 0) = None) \<and>
         (\<forall>j. int j \<le> i \<and> int j < v \<longrightarrow>
             files (shift_from path v i s) (version_path path (Suc j)) = files s (version_path path j)) \<and>
         (\<forall>q. (\<forall>j. int j \<le> i + 1 \<and> int j \<le> v \<longrightarrow> q \<noteq> version_path path j) \<longrightarrow>
             files (shift_from path v i s) q = files s q) \<and>
         logged (shift_from path v i s) = logged s"
  using assms
proof (induction path v i s rule: shift_from.induct)
  case (1 path v i s)
  show ?case
  proof (cases "0 \<le> i")
    case False
    then show ?thesis by (subst (1 2 3 4) shift_from.simps) simp
  next
    case True
    define s1 where "s1 = shift_body path v i s"
    have unf: "shift_from path v i s = shift_from path v (i - 1) s1"
      using True by (subst shift_from.simps) (simp add: s1_def)
    have nf_i: "\<not> faulty s (version_path path (nat i))"
      using 1(3,4) True by simp
    have s1_files: "files s1 = (if i = v then (files s)(version_path path (nat i) := None)
        else (files s)(version_path path (Suc (nat i)) := files s (version_path path (nat i)),
                       version_path path (nat i) := None))"
    proof (cases "i = v")
      case True
      with \<open>0 \<le> i\<close> nf_i show ?thesis by (simp add: s1_def shift_body_oldest)
    next
      case False
      with 1(3) have lt: "i < v" by simp
      have "\<not> faulty s (version_path path (Suc (nat i)))" using 1(4) lt True by simp
      moreover have "files s (version_path path (Suc (nat i))) = None"
        using 1(5) lt True by (simp add: nat_add_distrib)
      ultimately show ?thesis using lt True nf_i False
        by (simp add: s1_def shift_body_other)
    qed
    have s1_log: "logged s1 = logged s"
    proof (cases "i = v")
      case True
      with \<open>0 \<le> i\<close> nf_i show ?thesis by (simp add: s1_def shift_body_oldest)
    next
      case False
      with 1(3) have lt: "i < v" by simp
      have "\<not> faulty s (version_path path (Suc (nat i)))" using 1(4) lt True by simp
      moreover have "files s (version_path path (Suc (nat i))) = None"
        using 1(5) lt True by (simp add: nat_add_distrib)
      ultimately show ?thesis using lt True nf_i False
        by (simp add: s1_def shift_body_other)
    qed
    have s1_faulty: "faulty s1 = faulty s" by (simp add: s1_def)
    have pre1: "i - 1 < v \<longrightarrow> files s1 (version_path path (nat (i - 1 + 1))) = None"
      by (simp add: s1_files)
    have IH: "(0 \<le> i - 1 \<longrightarrow> files (shift_from path v (i - 1) s1) (version_path path 0) = None) \<and>
         (\<forall>j. int j \<le> i - 1 \<and> int j < v \<longrightarrow>
             files (shift_from path v (i - 1) s1) (version_path path (Suc j)) = files s1 (version_path path j)) \<and>
         (\<forall>q. (\<forall>j. int j \<le> i - 1 + 1 \<and> int j \<le> v \<longrightarrow> q \<noteq> version_path path j) \<longrightarrow>
             files (shift_from path v (i - 1) s1) q = files s1 q) \<and>
         logged (shift_from path v (i - 1) s1) = logged s1"
      using 1(1) [OF True, folded s1_def] True 1(3,4) pre1 by (simp add: s1_faulty)
    have A: "files (shift_from path v i s) (version_path path 0) = None"
    proof (cases "i = 0")
      case True
      have "shift_from path v (i - 1) s1 = s1"
        using True by (subst shift_from.simps) simp
      then show ?thesis unfolding unf using True by (simp add: s1_files)
    next
      case False
      with True IH show ?thesis by (simp add: unf)
    qed
    have B: "files (shift_from path v i s) (version_path path (Suc j)) = files s (version_path path j)"
      if j: "int j \<le> i" "int j < v" for j
    proof (cases "int j = i")
      case True
      have "\<forall>j'. int j' \<le> i - 1 + 1 \<and> int j' \<le> v \<longrightarrow> version_path path (Suc j) \<noteq> version_path path j'"
        using True by auto
      with IH have "files (shift_from path v (i - 1) s1) (version_path path (Suc j)) = files s1 (version_path path (Suc j))"
        by blast
      also have "\<dots> = files s (version_path path j)"
        using True j by (auto simp: s1_files)
      finally show ?thesis by (simp add: unf)
    next
      case False
      with j have le: "int j \<le> i - 1" by simp
      with IH j have "files (shift_from path v (i - 1) s1) (version_path path (Suc j)) = files s1 (version_path path j)"
        by blast
      also have "\<dots> = files s (version_path path j)"
      proof -
        have "j \<noteq> nat i" "j \<noteq> Suc (nat i)" using le by linarith+
        then show ?thesis by (auto simp: s1_files)
      qed
      finally show ?thesis by (simp add: unf)
    qed
    have C: "files (shift_from path v i s) q = files s q"
      if q: "\<forall>j. int j \<le> i + 1 \<and> int j \<le> v \<longrightarrow> q \<noteq> version_path path j" for q
    proof -
      have "\<forall>j. int j \<le> i - 1 + 1 \<and> int j \<le> v \<longrightarrow> q \<noteq> version_path path j"
        using q by simp
      with IH have "files (shift_from path v (i - 1) s1) q = files s1 q" by blast
      moreover have "q \<noteq> version_path path (nat i)" using q True 1(3) by simp
      moreover have "i < v \<longrightarrow> q \<noteq> version_path path (Suc (nat i))"
        using q True by simp
      ultimately show ?thesis using 1(3) by (auto simp: unf s1_files)
    qed
    have D: "logged (shift_from path v i s) = logged s"
      using IH by (simp add: unf s1_log)
    from A B C D show ?thesis by blast
  qed
qed

lemma byte_of_length: "byte_of (of_nat n) = char_of (n mod 256)"
  by (simp add: byte_of_def unat_uint8_of_nat)

text \<open>
  Claim C3 (version rotation). For a cap \<open>V \<ge> 1\<close> and a target \<open>path\<close>, when the system
  refuses no operation on the chain \<open>path, path.1, \<dots>, path.(V-1)\<close>, \<open>shiftFileVersions\<close>
  leaves no file at \<open>path\<close>; what was at index \<open>i\<close> (a file, or nothing: a missing file is
  skipped) is at index \<open>i + 1\<close> afterwards for every \<open>i + 1 < V\<close>, so the former
  \<open>path.(V-1)\<close> is gone; every path outside the chain is untouched and nothing is
  logged; for \<open>V = 1\<close> the effect is exactly the removal of \<open>path\<close>; and a gap-free chain
  of \<open>k \<le> V\<close> files at the indices \<open>0 \<dots> k-1\<close> becomes the gap-free chain at the
  indices \<open>1 \<dots> min k (V-1)\<close>.
\<close>

theorem shiftFileVersions_rotation:
  assumes "1 \<le> unat (Versions cfg)"
    and "\<forall>i < unat (Versions cfg). \<not> faulty s (version_path path i)"
  shows "files (shiftFileVersions cfg path s) path = None \<and>
     (\<forall>i. Suc i < unat (Versions cfg) \<longrightarrow>
        files (shiftFileVersions cfg path s) (version_path path (Suc i)) = files s (version_path path i)) \<and>
     (\<forall>q. (\<forall>i < unat (Versions cfg). q \<noteq> version_path path i) \<longrightarrow>
        files (shiftFileVersions cfg path s) q = files s q) \<and>
     logged (shiftFileVersions cfg path s) = logged s \<and>
     (unat (Versions cfg) = 1 \<longrightarrow> files (shiftFileVersions cfg path s) = (files s)(path := None)) \<and>
     (\<forall>k \<le> unat (Versions cfg).
        (\<forall>i < k. files s (version_path path i) \<noteq> None) \<and>
        (\<forall>i. k \<le> i \<and> i < unat (Versions cfg) \<longrightarrow> files s (version_path path i) = None) \<longrightarrow>
        (\<forall>i. 1 \<le> i \<and> i \<le> min k (unat (Versions cfg) - 1) \<longrightarrow>
           files (shiftFileVersions cfg path s) (version_path path i) \<noteq> None) \<and>
        (\<forall>i. min k (unat (Versions cfg) - 1) < i \<and> i < unat (Versions cfg) \<longrightarrow>
           files (shiftFileVersions cfg path s) (version_path path i) = None))"
proof -
  define V where "V = unat (Versions cfg)"
  define v where "v = uint (Versions cfg) - 1"
  define s' where "s' = shiftFileVersions cfg path s"
  have v: "v = int V - 1" by (simp add: v_def V_def)
  have V1: "1 \<le> V" using assms(1) by (simp add: V_def)
  have s': "s' = shift_from path v v s"
    by (simp add: s'_def shiftFileVersions_def v_def Let_def)
  have nf: "\<forall>j. int j \<le> v \<longrightarrow> \<not> faulty s (version_path path j)"
  proof (intro allI impI)
    fix j assume "int j \<le> v"
    with V1 have "j < V" unfolding v by linarith
    with assms(2) show "\<not> faulty s (version_path path j)" by (simp add: V_def)
  qed
  have spec: "(0 \<le> v \<longrightarrow> files s' (version_path path 0) = None) \<and>
         (\<forall>j. int j \<le> v \<and> int j < v \<longrightarrow>
             files s' (version_path path (Suc j)) = files s (version_path path j)) \<and>
         (\<forall>q. (\<forall>j. int j \<le> v + 1 \<and> int j \<le> v \<longrightarrow> q \<noteq> version_path path j) \<longrightarrow>
             files s' q = files s q) \<and>
         logged s' = logged s"
    unfolding s' by (rule shift_from_spec) (use V1 nf in \<open>simp_all add: v\<close>)
  have A: "files s' path = None"
    using spec V1 by (simp add: v version_path_def)
  have B: "files s' (version_path path (Suc i)) = files s (version_path path i)" if "Suc i < V" for i
  proof -
    from that have "int i \<le> v \<and> int i < v" by (simp add: v)
    with spec show ?thesis by blast
  qed
  have C: "files s' q = files s q" if q: "\<forall>i < V. q \<noteq> version_path path i" for q
  proof -
    have "\<forall>j. int j \<le> v + 1 \<and> int j \<le> v \<longrightarrow> q \<noteq> version_path path j"
      using q V1 by (auto simp: v)
    with spec show ?thesis by blast
  qed
  have D: "logged s' = logged s" using spec by blast
  have E: "files s' = (files s)(path := None)" if "V = 1"
  proof (rule ext)
    fix q
    show "files s' q = ((files s)(path := None)) q"
    proof (cases "q = path")
      case True
      then show ?thesis using A by simp
    next
      case False
      then have "\<forall>i < V. q \<noteq> version_path path i"
        using that by (simp add: version_path_def)
      then show ?thesis using C False by simp
    qed
  qed
  have F: "(\<forall>i. 1 \<le> i \<and> i \<le> min k (V - 1) \<longrightarrow> files s' (version_path path i) \<noteq> None) \<and>
        (\<forall>i. min k (V - 1) < i \<and> i < V \<longrightarrow> files s' (version_path path i) = None)"
    if k: "k \<le> V" and ex: "\<forall>i < k. files s (version_path path i) \<noteq> None"
      and nex: "\<forall>i. k \<le> i \<and> i < V \<longrightarrow> files s (version_path path i) = None" for k
  proof (intro conjI allI impI)
    fix i assume i: "1 \<le> i \<and> i \<le> min k (V - 1)"
    then obtain j where j: "i = Suc j" by (cases i) auto
    with i have "Suc j < V" "j < k" using V1 by auto
    then show "files s' (version_path path i) \<noteq> None"
      using B [of j] ex by (simp add: j)
  next
    fix i assume i: "min k (V - 1) < i \<and> i < V"
    then obtain j where j: "i = Suc j" by (cases i) auto
    with i have "Suc j < V" "k \<le> j" "j < V" using V1 k by (auto simp: min_def split: if_splits)
    then show "files s' (version_path path i) = None"
      using B [of j] nex by (simp add: j)
  qed
  from A B C D E F show ?thesis
    unfolding s'_def V_def by blast
qed

theorem shiftFileVersions_rotation_witness:
  "files (shiftFileVersions receiver_cfg ''/out/a.txt'' two_versions_sys) ''/out/a.txt'' = None \<and>
   files (shiftFileVersions receiver_cfg ''/out/a.txt'' two_versions_sys) ''/out/a.txt.1'' = Some ''world'' \<and>
   logged (shiftFileVersions receiver_cfg ''/out/a.txt'' two_versions_sys) = []"
proof -
  have V: "unat (Versions receiver_cfg) = 2" by (simp add: receiver_cfg_def)
  have p0: "version_path ''/out/a.txt'' 0 = ''/out/a.txt''" by (simp add: version_path_def)
  have p1: "version_path ''/out/a.txt'' (Suc 0) = ''/out/a.txt.1''" by code_simp
  have nf: "\<forall>i < unat (Versions receiver_cfg). \<not> faulty two_versions_sys (version_path ''/out/a.txt'' i)"
    by (simp add: two_versions_sys_def)
  have rot: "files (shiftFileVersions receiver_cfg ''/out/a.txt'' two_versions_sys) ''/out/a.txt'' = None \<and>
     (\<forall>i. Suc i < unat (Versions receiver_cfg) \<longrightarrow>
        files (shiftFileVersions receiver_cfg ''/out/a.txt'' two_versions_sys) (version_path ''/out/a.txt'' (Suc i))
          = files two_versions_sys (version_path ''/out/a.txt'' i)) \<and>
     logged (shiftFileVersions receiver_cfg ''/out/a.txt'' two_versions_sys) = logged two_versions_sys"
    using shiftFileVersions_rotation [of receiver_cfg two_versions_sys "''/out/a.txt''"] nf V
    by simp
  then have "files (shiftFileVersions receiver_cfg ''/out/a.txt'' two_versions_sys) (version_path ''/out/a.txt'' (Suc 0))
          = files two_versions_sys (version_path ''/out/a.txt'' 0)"
    using V by simp
  then have "files (shiftFileVersions receiver_cfg ''/out/a.txt'' two_versions_sys) ''/out/a.txt.1'' = Some ''world''"
    unfolding p0 p1 by (simp add: two_versions_sys_def)
  with rot show ?thesis by (simp add: two_versions_sys_def)
qed


text \<open>
  Claim C10. For a name longer than 255 bytes \<open>writeFilename\<close> does not fail on a working
  writer: it writes the single byte \<open>len(name) mod 256\<close> and then all the bytes of the
  name, so the length the frame declares differs from the number of name bytes written.
\<close>

theorem writeFilename_long_name:
  assumes "255 < length name" and "wfault w = None"
  shows "writeFilename name w =
           (None, w\<lparr>written := written w @ char_of (length name mod 256) # name\<rparr>) \<and>
         (of_char (char_of (length name mod 256)) :: nat) \<noteq> length name"
  using assms by (simp add: writeFilename_ok byte_of_length)

theorem writeFilename_long_name_witness:
  "writeFilename (replicate 256 CHR ''a'') \<lparr>written = [], wfault = None\<rparr> =
     (None, \<lparr>written = CHR 0x00 # replicate 256 CHR ''a'', wfault = None\<rparr>)"
proof -
  have len: "char_of (length (replicate 256 CHR ''a'') mod 256) = CHR 0x00" by code_simp
  show ?thesis
    using writeFilename_long_name [of "replicate 256 CHR ''a''" "\<lparr>written = [], wfault = None\<rparr>"]
    unfolding len by simp
qed

lemma receiveFile_header:
  assumes "length name \<le> 255"
  shows "receiveFile cfg \<lparr>pending = char_of (length name) # name @ c, rend = e\<rparr> s =
     saveFile (DestinationDir cfg @ [PathSeparator] @ name) \<lparr>pending = c, rend = e\<rparr>
       (log_Info (''receiving file: '' @ name)
         (shiftFileVersions cfg (DestinationDir cfg @ [PathSeparator] @ name) s))"
proof -
  have "char_of (length name) = byte_of (of_nat (length name))"
    using assms by (simp add: byte_of_length)
  then show ?thesis using assms
    by (simp add: receiveFile_def read_header read_name unat_uint8_of_nat Let_def)
qed

lemma saveFile_clean:
  "saveFile path \<lparr>pending = c, rend = EOF\<rparr> s =
     (if faulty s path then (Some (ErrOS path), \<lparr>pending = c, rend = EOF\<rparr>, s)
      else (None, \<lparr>pending = [], rend = EOF\<rparr>, s\<lparr>files := (files s)(path \<mapsto> c)\<rparr>))"
  by (simp add: saveFile_def os_Create_def io_ReadAll_def)

lemma receiveFile_clean:
  assumes "length name \<le> 255"
  shows "receiveFile cfg \<lparr>pending = char_of (length name) # name @ c, rend = EOF\<rparr> s =
     (let path = DestinationDir cfg @ [PathSeparator] @ name;
          s2 = log_Info (''receiving file: '' @ name) (shiftFileVersions cfg path s)
      in if faulty s path then (Some (ErrOS path), \<lparr>pending = c, rend = EOF\<rparr>, s2)
         else (None, \<lparr>pending = [], rend = EOF\<rparr>, s2\<lparr>files := (files s2)(path \<mapsto> c)\<rparr>))"
  using assms by (simp add: receiveFile_header saveFile_clean Let_def log_Info_def)

text \<open>
  Claim C4 (framing round trip). For a name \<open>n\<close> of 1 to 255 bytes and any content \<open>c\<close>:
  the sender's \<open>writeFilename\<close> followed by \<open>writeFile\<close> of a file holding \<open>c\<close> writes the
  length byte, the name and \<open>c\<close> to a fresh working channel; \<open>receiveFile\<close> reading these
  bytes up to a clean end of stream recovers the name \<open>n\<close> (it logs it and stores the file
  under it in the destination directory) and the content \<open>c\<close>, without error.
\<close>

theorem framing_round_trip:
  assumes "1 \<le> length n" and "length n \<le> 255"
    and "files sender src = Some c" and "\<not> faulty sender src"
    and "wfault w = None" and "written w = []"
    and "\<not> faulty s (DestinationDir cfg @ [PathSeparator] @ n)"
    and "writeFilename n w = (e1, w1)"
    and "writeFile sender src w1 = (e2, w2)"
    and "receiveFile cfg \<lparr>pending = written w2, rend = EOF\<rparr> s = (e3, r', s')"
  shows "e1 = None \<and> e2 = None \<and> e3 = None \<and>
         written w2 = char_of (length n) # n @ c \<and>
         files s' (DestinationDir cfg @ [PathSeparator] @ n) = Some c \<and>
         last (logged s') = LogInfo (''receiving file: '' @ n) \<and>
         pending r' = []"
proof -
  have w1: "e1 = None" "w1 = w\<lparr>written := char_of (length n) # n\<rparr>"
    using assms(2,5,6,8) by (simp_all add: writeFilename_ok byte_of_length)
  have w2: "e2 = None" "w2 = w\<lparr>written := char_of (length n) # n @ c\<rparr>"
    using assms(3,4,5,9) by (auto simp: w1 writeFile_def os_Open_def io_Write_def)
  have "written w2 = char_of (length n) # n @ c" by (simp add: w2)
  with assms(10) have
    "receiveFile cfg \<lparr>pending = char_of (length n) # n @ c, rend = EOF\<rparr> s = (e3, r', s')"
    by simp
  with assms(2,7) have "e3 = None" "pending r' = []"
    "files s' (DestinationDir cfg @ [PathSeparator] @ n) = Some c"
    "last (logged s') = LogInfo (''receiving file: '' @ n)"
    by (auto simp: receiveFile_clean Let_def log_Info_def)
  with w1 w2 show ?thesis by simp
qed

theorem framing_round_trip_witness:
  "(case writeFilename ''a.txt'' \<lparr>written = [], wfault = None\<rparr> of (e1, w1) \<Rightarrow>
    case writeFile sender_sys ''/t/a.txt'' w1 of (e2, w2) \<Rightarrow>
    case receiveFile receiver_cfg \<lparr>pending = written w2, rend = EOF\<rparr> empty_sys of (e3, r', s') \<Rightarrow>
      e1 = None \<and> e2 = None \<and> e3 = None \<and> written w2 = CHR 0x05 # ''a.txt'' @ ''hello'' \<and>
      files s' ''/out/a.txt'' = Some ''hello'')"
proof -
  obtain e1 w1 where a: "writeFilename ''a.txt'' \<lparr>written = [], wfault = None\<rparr> = (e1, w1)"
    by (cases "writeFilename ''a.txt'' \<lparr>written = [], wfault = None\<rparr>")
  obtain e2 w2 where b: "writeFile sender_sys ''/t/a.txt'' w1 = (e2, w2)"
    by (cases "writeFile sender_sys ''/t/a.txt'' w1")
  obtain e3 r' s' where c: "receiveFile receiver_cfg \<lparr>pending = written w2, rend = EOF\<rparr> empty_sys = (e3, r', s')"
    by (metis prod_cases3)
  have len: "char_of (length ''a.txt'') = CHR 0x05" by code_simp
  have rt: "e1 = None \<and> e2 = None \<and> e3 = None \<and>
         written w2 = char_of (length ''a.txt'') # ''a.txt'' @ ''hello'' \<and>
         files s' (DestinationDir receiver_cfg @ [PathSeparator] @ ''a.txt'') = Some ''hello'' \<and>
         last (logged s') = LogInfo (''receiving file: '' @ ''a.txt'') \<and>
         pending r' = []"
    by (rule framing_round_trip [OF _ _ _ _ _ _ _ a b c])
       (simp_all add: sender_sys_def empty_sys_def)
  then have e: "e1 = None" "e2 = None" "e3 = None"
    and w2: "written w2 = CHR 0x05 # ''a.txt'' @ ''hello''"
    and f: "files s' (DestinationDir receiver_cfg @ [PathSeparator] @ ''a.txt'') = Some ''hello''"
    unfolding len by blast+
  have path: "DestinationDir receiver_cfg @ [PathSeparator] @ ''a.txt'' = ''/out/a.txt''"
    by (simp add: receiver_cfg_def PathSeparator_def)
  from f have f': "files s' ''/out/a.txt'' = Some ''hello''"
    unfolding path .
  from c have c': "receiveFile receiver_cfg
      \<lparr>pending = CHR 0x05 # ''a.txt'' @ ''hello'', rend = EOF\<rparr> empty_sys = (e3, r', s')"
    unfolding w2 .
  from e f' c' show ?thesis
    by (simp add: a b w2)
qed

text \<open>
  Claim C2, as the code has it. \<open>receiveFile\<close> does not inspect the decoded name: a name
  that contains a path separator is appended to \<open>DestinationDir\<close> and the separator like
  any other name. On a frame with a complete header and a clean end of stream the call
  fails only when the system refuses to create the file at that path; otherwise the
  content is stored at \<open>DestinationDir/name\<close>.
\<close>

theorem receiveFile_keeps_separators:
  assumes "PathSeparator \<in> set name" and "length name \<le> 255"
  shows "fst (receiveFile cfg \<lparr>pending = char_of (length name) # name @ c, rend = EOF\<rparr> s) =
           (if faulty s (DestinationDir cfg @ [PathSeparator] @ name)
            then Some (ErrOS (DestinationDir cfg @ [PathSeparator] @ name)) else None) \<and>
         (\<not> faulty s (DestinationDir cfg @ [PathSeparator] @ name) \<longrightarrow>
          files (snd (snd (receiveFile cfg
                   \<lparr>pending = char_of (length name) # name @ c, rend = EOF\<rparr> s)))
            (DestinationDir cfg @ [PathSeparator] @ name) = Some c)"
  using assms(2) by (simp add: receiveFile_clean Let_def)



theorem receiveFile_keeps_separators_witness:
  "fst (receiveFile receiver_cfg \<lparr>pending = CHR 0x03 # ''a/b'' @ ''data'', rend = EOF\<rparr> empty_sys)
     = None \<and>
   files (snd (snd (receiveFile receiver_cfg
       \<lparr>pending = CHR 0x03 # ''a/b'' @ ''data'', rend = EOF\<rparr> empty_sys))) ''/out/a/b''
     = Some ''data''"
proof -
  have len: "char_of (length ''a/b'') = CHR 0x03" by code_simp
  show ?thesis
    using receiveFile_keeps_separators [of "''a/b''" receiver_cfg "''data''" empty_sys]
    unfolding len by (simp add: receiver_cfg_def empty_sys_def PathSeparator_def)
qed

text \<open>
  The claim as stated (a name with a path separator is rejected) fails: the frame that
  names \<open>../x\<close> is received without error and its content is stored at \<open>/out/../x\<close>.
\<close>

theorem receiveFile_traversal_counterexample:
  "PathSeparator \<in> set ''../x'' \<and>
   fst (receiveFile receiver_cfg \<lparr>pending = CHR 0x04 # ''../x'' @ ''hi'', rend = EOF\<rparr> empty_sys)
     = None \<and>
   files (snd (snd (receiveFile receiver_cfg
       \<lparr>pending = CHR 0x04 # ''../x'' @ ''hi'', rend = EOF\<rparr> empty_sys))) ''/out/../x''
     = Some ''hi''"
proof -
  have len: "char_of (length ''../x'') = CHR 0x04" by code_simp
  have "receiveFile receiver_cfg \<lparr>pending = char_of (length ''../x'') # ''../x'' @ ''hi'', rend = EOF\<rparr> empty_sys
     = (let path = DestinationDir receiver_cfg @ [PathSeparator] @ ''../x'';
          s2 = log_Info (''receiving file: '' @ ''../x'') (shiftFileVersions receiver_cfg path empty_sys)
      in if faulty empty_sys path then (Some (ErrOS path), \<lparr>pending = ''hi'', rend = EOF\<rparr>, s2)
         else (None, \<lparr>pending = [], rend = EOF\<rparr>, s2\<lparr>files := (files s2)(path \<mapsto> ''hi'')\<rparr>))"
    by (rule receiveFile_clean) simp
  then show ?thesis
    unfolding len by (simp add: Let_def receiver_cfg_def empty_sys_def PathSeparator_def)
qed

section \<open>Properties of the password manager\<close>

lemma writePassword_ok:
  "wfault w = None \<Longrightarrow>
   writePassword w p = (None, w\<lparr>written := written w @ char_of (length p mod 256) # p\<rparr>)"
  by (simp add: writePassword_def binary_Write_uint8_def binary_Write_bytes_def io_Write_def
      byte_of_length)

lemma readPassword_ok:
  assumes "length p \<le> 255"
  shows "readPassword \<lparr>pending = char_of (length p) # p @ rest, rend = e\<rparr> =
           (p, None, \<lparr>pending = rest, rend = e\<rparr>)"
proof -
  have "char_of (length p) = byte_of (of_nat (length p))"
    using assms by (simp add: byte_of_length)
  then show ?thesis using assms
    by (simp add: readPassword_def read_header read_name unat_of_nat)
qed

lemma round_trip_any_crypto:
  assumes "length p1 \<le> 255" and "length p2 \<le> 255"
    and "\<forall>x. \<exists>y. Encrypt (crypto m) x = Inr y \<and> Decrypt (crypto m) y = Inr x"
    and "SavePasswords m p1 p2 s = (None, s')"
  shows "GetPasswords m s' = (p1, p2, None) \<and>
         (\<exists>ct. Encrypt (crypto m) (char_of (length p1) # p1 @ char_of (length p2) # p2) = Inr ct \<and>
               files s' (PasswordFile m) = Some ct)"
proof -
  define plain where "plain = char_of (length p1) # p1 @ char_of (length p2) # p2"
  obtain ct where ct: "Encrypt (crypto m) plain = Inr ct" "Decrypt (crypto m) ct = Inr plain"
    using assms(3) by blast
  have save: "SavePasswords m p1 p2 s = os_WriteFile s (PasswordFile m) ct"
    using assms(1,2) ct(1)
    by (simp add: SavePasswords_def writePassword_ok plain_def)
  with assms(4) have s': "\<not> faulty s (PasswordFile m)" "s' = s\<lparr>files := (files s)(PasswordFile m \<mapsto> ct)\<rparr>"
    by (auto simp: os_WriteFile_def split: if_splits)
  have "readPassword \<lparr>pending = plain, rend = EOF\<rparr> =
          (p1, None, \<lparr>pending = char_of (length p2) # p2 @ [], rend = EOF\<rparr>)"
    unfolding plain_def using assms(1) by (simp add: readPassword_ok)
  moreover have "readPassword \<lparr>pending = char_of (length p2) # p2 @ [], rend = EOF\<rparr> =
          (p2, None, \<lparr>pending = [], rend = EOF\<rparr>)"
    using assms(2) by (rule readPassword_ok)
  ultimately have "GetPasswords m s' = (p1, p2, None)"
    using s' ct(2) by (simp add: GetPasswords_def os_ReadFile_def os_Open_def)
  moreover have "files s' (PasswordFile m) = Some ct" by (simp add: s')
  ultimately show ?thesis using ct(1) unfolding plain_def by blast
qed

declare cbc_encrypt_blocks.simps [simp del]

declare cbc_decrypt_blocks.simps [simp del]

lemma byte_of_uint8_of [simp]: "byte_of (uint8_of c) = c"
  by (simp add: byte_of_def uint8_of_def unat_of_nat)

lemma xor_byte_cancel [simp]: "xor_byte (xor_byte a b) b = a"
  by (simp add: xor_byte_def xor.assoc)

lemma length_xor_bytes [simp]: "length (xor_bytes a b) = min (length a) (length b)"
  by (simp add: xor_bytes_def)

lemma xor_bytes_cancel: "length a = length b \<Longrightarrow> xor_bytes (xor_bytes a b) b = a"
  unfolding xor_bytes_def
  by (induction a b rule: list_induct2) simp_all

lemma cbc_round_trip:
  assumes "0 < BlockSize b"
    and "\<forall>x. length x = BlockSize b \<longrightarrow>
           length (encrypt_block b x) = BlockSize b \<and> decrypt_block b (encrypt_block b x) = x"
    and "length iv = BlockSize b"
    and "length src mod BlockSize b = 0"
  shows "length (cbc_encrypt_blocks b iv src) = length src \<and>
         cbc_decrypt_blocks b iv (cbc_encrypt_blocks b iv src) = src"
  using assms
proof (induction b iv src rule: cbc_encrypt_blocks.induct)
  case (1 b iv src)
  show ?case
  proof (cases "src = []")
    case True
    then show ?thesis
      by (simp add: cbc_encrypt_blocks.simps [of b iv] cbc_decrypt_blocks.simps [of b iv])
  next
    case False
    define n where "n = BlockSize b"
    define x where "x = xor_bytes (take n src) iv"
    define c where "c = encrypt_block b x"
    have n: "0 < n" using 1(2) by (simp add: n_def)
    have len: "n \<le> length src"
    proof (rule ccontr)
      assume "\<not> n \<le> length src"
      then have "length src mod n = length src" by simp
      with 1(5) False show False by (simp add: n_def)
    qed
    have lx: "length x = n" using len 1(4) by (simp add: x_def n_def)
    then have lc: "length c = n" and dc: "decrypt_block b c = x"
      using 1(3) by (simp_all add: c_def n_def)
    have rest: "length (drop n src) mod n = 0"
      using 1(5) len le_mod_geq [of n "length src"] by (simp add: n_def)
    have enc: "cbc_encrypt_blocks b iv src = c @ cbc_encrypt_blocks b c (drop n src)"
      using False n by (subst cbc_encrypt_blocks.simps) (simp add: Let_def c_def x_def n_def)
    have IH: "length (cbc_encrypt_blocks b c (drop n src)) = length (drop n src) \<and>
         cbc_decrypt_blocks b c (cbc_encrypt_blocks b c (drop n src)) = drop n src"
      using 1(1) [of c] False n 1(2,3) lc rest
      by (simp add: c_def x_def n_def)
    have "cbc_decrypt_blocks b iv (c @ cbc_encrypt_blocks b c (drop n src)) =
          xor_bytes (decrypt_block b c) iv @
            cbc_decrypt_blocks b c (cbc_encrypt_blocks b c (drop n src))"
      using n lc by (subst cbc_decrypt_blocks.simps) (auto simp: Let_def n_def)
    also have "\<dots> = xor_bytes x iv @ drop n src" using IH dc by simp
    also have "xor_bytes x iv = take n src"
      unfolding x_def using len 1(4) by (simp add: xor_bytes_cancel n_def)
    finally have "cbc_decrypt_blocks b iv (cbc_encrypt_blocks b iv src) = src"
      by (simp add: enc)
    moreover have "length (cbc_encrypt_blocks b iv src) = length src"
      using IH lc len by (simp add: enc)
    ultimately show ?thesis by simp
  qed
qed

lemma pkcs7_round_trip:
  assumes "1 \<le> n" and "n \<le> 255"
  shows "\<exists>y. pkcs7pad_Pad x n = Inr y \<and> length y mod n = 0 \<and> pkcs7pad_Unpad y = Inr x"
proof -
  define i where "i = n - (length x mod n)"
  define y where "y = x @ replicate i (char_of i)"
  have i: "1 \<le> i" "i \<le> n" "i \<le> 255"
    using assms by (simp_all add: i_def le_diff_conv2 Suc_leI)
  have pad: "pkcs7pad_Pad x n = Inr y"
    using assms by (simp add: pkcs7pad_Pad_def y_def i_def Let_def)
  have m: "length x mod n < n" using assms by simp
  have "length x + i = (length x - length x mod n) + n"
    unfolding i_def using m by simp
  also have "length x - length x mod n = n * (length x div n)"
    by (simp add: minus_mod_eq_mult_div)
  finally have "(length x + i) mod n = 0" by simp
  then have len: "length y mod n = 0" by (simp add: y_def)
  have ly: "last y = char_of i" using i by (simp add: y_def)
  have oc: "(of_char (char_of i) :: nat) = i" using i by simp
  have ne: "y \<noteq> []" using i by (simp add: y_def)
  have dr: "drop (length y - i) y = replicate i (char_of i)" by (simp add: y_def)
  have tk: "take (length y - i) y = x" by (simp add: y_def)
  have li: "i \<le> length y" by (simp add: y_def)
  have "pkcs7pad_Unpad y = Inr x"
    unfolding pkcs7pad_Unpad_def Let_def ly oc dr tk
    using i ne li by (simp add: list_all_iff)
  with pad len show ?thesis by (intro exI [of _ y]) simp
qed

lemma AesCbc_round_trip:
  assumes "1 \<le> BlockSize (aes_cipher c)" and "BlockSize (aes_cipher c) \<le> 255"
    and "length (IV (aes_cfg c)) = BlockSize (aes_cipher c)"
    and "\<forall>x. length x = BlockSize (aes_cipher c) \<longrightarrow>
           length (encrypt_block (aes_cipher c) x) = BlockSize (aes_cipher c) \<and>
           decrypt_block (aes_cipher c) (encrypt_block (aes_cipher c) x) = x"
  shows "\<exists>y. AesCbc_Encrypt c x = Inr y \<and> AesCbc_Decrypt c y = Inr x"
proof -
  obtain p where p: "pkcs7pad_Pad x (BlockSize (aes_cipher c)) = Inr p"
      "length p mod BlockSize (aes_cipher c) = 0" "pkcs7pad_Unpad p = Inr x"
    using pkcs7_round_trip [OF assms(1,2), of x] by (elim exE conjE)
  have rt: "length (cbc_encrypt_blocks (aes_cipher c) (IV (aes_cfg c)) p) = length p \<and>
         cbc_decrypt_blocks (aes_cipher c) (IV (aes_cfg c))
           (cbc_encrypt_blocks (aes_cipher c) (IV (aes_cfg c)) p) = p"
  proof (rule cbc_round_trip)
    show "0 < BlockSize (aes_cipher c)" using assms(1) by simp
    show "\<forall>x. length x = BlockSize (aes_cipher c) \<longrightarrow>
           length (encrypt_block (aes_cipher c) x) = BlockSize (aes_cipher c) \<and>
           decrypt_block (aes_cipher c) (encrypt_block (aes_cipher c) x) = x"
      by (rule assms(4))
    show "length (IV (aes_cfg c)) = BlockSize (aes_cipher c)" by (rule assms(3))
    show "length p mod BlockSize (aes_cipher c) = 0" by (rule p(2))
  qed
  show ?thesis
    using p rt assms(3) by (simp add: AesCbc_Encrypt_def AesCbc_Decrypt_def)
qed

lemma SavePasswords_writes:
  assumes "\<forall>x. \<exists>y. Encrypt (crypto m) x = Inr y \<and> Decrypt (crypto m) y = Inr x"
  shows "\<exists>ct. Encrypt (crypto m)
               (char_of (length p1 mod 256) # p1 @ char_of (length p2 mod 256) # p2) = Inr ct \<and>
          SavePasswords m p1 p2 s = os_WriteFile s (PasswordFile m) ct"
proof -
  obtain ct where "Encrypt (crypto m)
               (char_of (length p1 mod 256) # p1 @ char_of (length p2 mod 256) # p2) = Inr ct"
    using assms by blast
  then show ?thesis
    by (simp add: SavePasswords_def writePassword_ok)
qed

lemma stand_in_contract:
  "\<forall>x. \<exists>y. Encrypt (crypto example_saver) x = Inr y \<and> Decrypt (crypto example_saver) y = Inr x"
proof
  fix x
  have "\<exists>y. AesCbc_Encrypt stand_in_aes x = Inr y \<and> AesCbc_Decrypt stand_in_aes y = Inr x"
    by (rule AesCbc_round_trip) (simp_all add: stand_in_aes_def)
  then show "\<exists>y. Encrypt (crypto example_saver) x = Inr y \<and> Decrypt (crypto example_saver) y = Inr x"
    by (simp add: example_saver_def AesCbc_Crypto_def)
qed

text \<open>
  Claim C1 (password round trip). The crypto is the repository's AES-CBC with PKCS#7
  padding over a 16-byte block cipher of the standard library whose decryption inverts
  its encryption, with a 16-byte IV. For passwords \<open>p1\<close> and \<open>p2\<close> of at most 255 bytes
  each, when \<open>SavePasswords\<close> succeeds, the file holds the encryption of the plaintext
  \<open>u8 len(p1) | p1 | u8 len(p2) | p2\<close>, and \<open>GetPasswords\<close> on the resulting state returns
  exactly \<open>(p1, p2)\<close> and no error.
\<close>

theorem password_round_trip:
  assumes "length p1 \<le> 255" and "length p2 \<le> 255"
    and "crypto m = AesCbc_Crypto c"
    and "BlockSize (aes_cipher c) = 16" and "length (IV (aes_cfg c)) = 16"
    and "\<forall>x. length x = 16 \<longrightarrow>
           length (encrypt_block (aes_cipher c) x) = 16 \<and>
           decrypt_block (aes_cipher c) (encrypt_block (aes_cipher c) x) = x"
    and "SavePasswords m p1 p2 s = (None, s')"
  shows "GetPasswords m s' = (p1, p2, None) \<and>
         (\<exists>ct. AesCbc_Encrypt c (char_of (length p1) # p1 @ char_of (length p2) # p2) = Inr ct \<and>
               files s' (PasswordFile m) = Some ct)"
proof -
  have "\<forall>x. \<exists>y. Encrypt (crypto m) x = Inr y \<and> Decrypt (crypto m) y = Inr x"
  proof
    fix x
    have "\<exists>y. AesCbc_Encrypt c x = Inr y \<and> AesCbc_Decrypt c y = Inr x"
      by (rule AesCbc_round_trip) (use assms(4,5,6) in simp_all)
    then show "\<exists>y. Encrypt (crypto m) x = Inr y \<and> Decrypt (crypto m) y = Inr x"
      by (simp add: assms(3) AesCbc_Crypto_def)
  qed
  from round_trip_any_crypto [OF assms(1,2) this assms(7)]
  show ?thesis by (simp add: assms(3) AesCbc_Crypto_def)
qed

theorem password_round_trip_witness:
  "fst (SavePasswords example_saver ''qwerty'' ''asdfgh'' empty_sys) = None \<and>
   GetPasswords example_saver (snd (SavePasswords example_saver ''qwerty'' ''asdfgh'' empty_sys))
     = (''qwerty'', ''asdfgh'', None)"
proof -
  obtain ct where "SavePasswords example_saver ''qwerty'' ''asdfgh'' empty_sys
      = os_WriteFile empty_sys (PasswordFile example_saver) ct"
    using SavePasswords_writes [OF stand_in_contract] by blast
  then have sv: "SavePasswords example_saver ''qwerty'' ''asdfgh'' empty_sys
      = (None, snd (SavePasswords example_saver ''qwerty'' ''asdfgh'' empty_sys))"
    by (simp add: os_WriteFile_def empty_sys_def)
  have "GetPasswords example_saver (snd (SavePasswords example_saver ''qwerty'' ''asdfgh'' empty_sys))
     = (''qwerty'', ''asdfgh'', None)"
    using password_round_trip [of "''qwerty''" "''asdfgh''" example_saver stand_in_aes
        empty_sys "snd (SavePasswords example_saver ''qwerty'' ''asdfgh'' empty_sys)"] sv
    by (simp add: example_saver_def stand_in_aes_def)
  moreover have "fst (SavePasswords example_saver ''qwerty'' ''asdfgh'' empty_sys) = None"
    by (subst sv) simp
  ultimately show ?thesis by blast
qed

section \<open>Properties of the peer transport\<close>

lemma connection_reports_chan:
  "shutdownChan (connection_reports state p) =
     (if terminal state then chan_send (shutdownChan p) else shutdownChan p)"
  by (simp add: connection_reports_def onConnStateChange_def terminal_def Let_def)

lemma state_changes_snoc:
  "state_changes (events @ [state]) p = connection_reports state (state_changes events p)"
  by (simp add: state_changes_def)

text \<open>
  Claim C5, as the code has it. \<open>onConnStateChange\<close> starts one send on the channel
  behind \<open>Done()\<close> for every change into \<open>disconnected\<close>, \<open>failed\<close> or \<open>closed\<close>, and none
  for any other state: after a run of state changes the number of sends waiting for a
  receiver has grown by the number of terminal changes in the run (there is no
  coalescing into one), and no value has been delivered by the handler itself.
\<close>

theorem done_once_per_terminal_change:
  "waiting_sends (shutdownChan (state_changes events p)) =
     waiting_sends (shutdownChan p) + length (filter terminal events) \<and>
   delivered (shutdownChan (state_changes events p)) = delivered (shutdownChan p)"
proof (induction events rule: rev_induct)
  case Nil
  then show ?case by (simp add: state_changes_def)
next
  case (snoc state events)
  then show ?case
    by (simp add: state_changes_snoc connection_reports_chan chan_send_def)
qed

text \<open>
  The claim as stated (exactly one delivery even when several terminal changes fire)
  fails: after \<open>disconnected\<close> and then \<open>failed\<close>, two receives from \<open>Done()\<close> both get a
  notification.
\<close>

theorem done_twice_counterexample:
  "Option.bind (chan_recv (shutdownChan (state_changes [StateDisconnected, StateFailed] fresh_peer)))
     chan_recv = Some \<lparr>waiting_sends = 0, delivered = 2\<rparr>"
  by (simp add: state_changes_def connection_reports_def onConnStateChange_def fresh_peer_def
      chan_send_def chan_recv_def Let_def)

lemma send_buffered_open:
  "ConnectionState p \<noteq> StateClosed \<Longrightarrow> list_all (\<lambda>c. SendCandidate env c = None) cs \<Longrightarrow>
   send_buffered env cs p = p\<lparr>published := published p @ map MsgCandidate cs\<rparr>"
proof (induction cs arbitrary: p)
  case Nil
  then show ?case by simp
next
  case (Cons c cs)
  then show ?case by (simp add: signalSendCandidate_def)
qed

lemma send_buffered_closed:
  "ConnectionState p = StateClosed \<Longrightarrow> send_buffered env cs p = p"
  by (induction cs) (simp_all add: signalSendCandidate_def)

text \<open>
  Claim C6, as the code has it. (1) A candidate emitted while no remote description is
  installed is appended to the buffer and nothing is published. (2) A candidate emitted
  once a remote description is installed is never buffered; it is published at once
  unless the connection is closed or the send fails. (3) A call of \<open>onSignalSDP\<close> that
  installs the remote description and, for an offer, creates, publishes and sets the
  answer without error, publishes the buffered candidates in emission order after the
  answer when the connection is not closed and the sends succeed; the buffer keeps its
  candidates. (4) While the connection is closed nothing is published.
\<close>

theorem candidate_buffering:
  "(RemoteDescription p = None \<longrightarrow>
      onConnICECandidate env (Some c) p = p\<lparr>candidates := candidates p @ [c]\<rparr>) \<and>
   (RemoteDescription p \<noteq> None \<longrightarrow>
      candidates (onConnICECandidate env (Some c) p) = candidates p \<and>
      published (onConnICECandidate env (Some c) p) =
        (if ConnectionState p \<noteq> StateClosed \<and> SendCandidate env c = None
         then published p @ [MsgCandidate c] else published p)) \<and>
   (json_Unmarshal env payload = Inr sdp \<and> SetRemoteDescription env sdp = None \<and>
    sdp_type sdp \<noteq> SDPTypeOffer \<and> ConnectionState p \<noteq> StateClosed \<and>
    list_all (\<lambda>c. SendCandidate env c = None) (candidates p) \<longrightarrow>
      onSignalSDP env payload p =
        p\<lparr>RemoteDescription := Some sdp,
          published := published p @ map MsgCandidate (candidates p)\<rparr>) \<and>
   (json_Unmarshal env payload = Inr sdp \<and> SetRemoteDescription env sdp = None \<and>
    sdp_type sdp = SDPTypeOffer \<and> CreateAnswer env = Inr answer \<and>
    json_Marshal env answer = Inr answer_payload \<and> SendSDP env answer_payload = None \<and>
    SetLocalDescription env answer = None \<and> ConnectionState p \<noteq> StateClosed \<and>
    list_all (\<lambda>c. SendCandidate env c = None) (candidates p) \<longrightarrow>
      onSignalSDP env payload p =
        p\<lparr>RemoteDescription := Some sdp, LocalDescription := Some answer,
          published := published p @ MsgSDP answer_payload # map MsgCandidate (candidates p)\<rparr>) \<and>
   (ConnectionState p = StateClosed \<longrightarrow>
      send_buffered env (candidates p) p = p \<and>
      published (onConnICECandidate env (Some c) p) = published p)"
proof (intro conjI impI)
  show "onConnICECandidate env (Some c) p = p\<lparr>candidates := candidates p @ [c]\<rparr>"
    if "RemoteDescription p = None"
    using that by (simp add: onConnICECandidate_def)
next
  assume "RemoteDescription p \<noteq> None"
  then show "candidates (onConnICECandidate env (Some c) p) = candidates p"
    by (auto simp: onConnICECandidate_def signalSendCandidate_def peer_log_Error_def
        split: option.splits)
next
  assume "RemoteDescription p \<noteq> None"
  then show "published (onConnICECandidate env (Some c) p) =
        (if ConnectionState p \<noteq> StateClosed \<and> SendCandidate env c = None
         then published p @ [MsgCandidate c] else published p)"
    by (auto simp: onConnICECandidate_def signalSendCandidate_def peer_log_Error_def
        split: option.splits)
next
  assume a: "json_Unmarshal env payload = Inr sdp \<and> SetRemoteDescription env sdp = None \<and>
    sdp_type sdp \<noteq> SDPTypeOffer \<and> ConnectionState p \<noteq> StateClosed \<and>
    list_all (\<lambda>c. SendCandidate env c = None) (candidates p)"
  then have "send_buffered env (candidates p) (p\<lparr>RemoteDescription := Some sdp\<rparr>) =
      (p\<lparr>RemoteDescription := Some sdp\<rparr>)
        \<lparr>published := published (p\<lparr>RemoteDescription := Some sdp\<rparr>) @ map MsgCandidate (candidates p)\<rparr>"
    by (intro send_buffered_open) simp_all
  with a show "onSignalSDP env payload p =
        p\<lparr>RemoteDescription := Some sdp,
          published := published p @ map MsgCandidate (candidates p)\<rparr>"
    by (simp add: onSignalSDP_def Let_def)
next
  assume a: "json_Unmarshal env payload = Inr sdp \<and> SetRemoteDescription env sdp = None \<and>
    sdp_type sdp = SDPTypeOffer \<and> CreateAnswer env = Inr answer \<and>
    json_Marshal env answer = Inr answer_payload \<and> SendSDP env answer_payload = None \<and>
    SetLocalDescription env answer = None \<and> ConnectionState p \<noteq> StateClosed \<and>
    list_all (\<lambda>c. SendCandidate env c = None) (candidates p)"
  define p2 where "p2 = p\<lparr>RemoteDescription := Some sdp,
      published := published p @ [MsgSDP answer_payload], LocalDescription := Some answer\<rparr>"
  have offer: "onSignalSDPOffer env (p\<lparr>RemoteDescription := Some sdp\<rparr>) = (None, p2)"
    using a by (simp add: onSignalSDPOffer_def p2_def)
  have "send_buffered env (candidates p) p2 =
      p2\<lparr>published := published p2 @ map MsgCandidate (candidates p)\<rparr>"
    using a by (intro send_buffered_open) (simp_all add: p2_def)
  moreover have "candidates p2 = candidates p" by (simp add: p2_def)
  ultimately show "onSignalSDP env payload p =
        p\<lparr>RemoteDescription := Some sdp, LocalDescription := Some answer,
          published := published p @ MsgSDP answer_payload # map MsgCandidate (candidates p)\<rparr>"
    using a offer by (simp add: onSignalSDP_def Let_def) (simp add: p2_def)
next
  assume "ConnectionState p = StateClosed"
  then show "send_buffered env (candidates p) p = p" by (rule send_buffered_closed)
next
  assume "ConnectionState p = StateClosed"
  then show "published (onConnICECandidate env (Some c) p) = published p"
    by (simp add: onConnICECandidate_def signalSendCandidate_def)
qed

theorem candidate_buffering_witness:
  "onConnICECandidate obliging_env (Some ''c3'') buffering_peer =
     buffering_peer\<lparr>candidates := [''c1'', ''c2'', ''c3'']\<rparr> \<and>
   candidates (onConnICECandidate obliging_env (Some ''c3'') installed_peer) = [''c1'', ''c2''] \<and>
   published (onConnICECandidate obliging_env (Some ''c3'') installed_peer) = [MsgCandidate ''c3''] \<and>
   onSignalSDP answering_env ''answer'' buffering_peer =
     buffering_peer\<lparr>RemoteDescription := Some \<lparr>sdp_type = SDPTypeAnswer, sdp_text = ''answer''\<rparr>,
       published := [MsgCandidate ''c1'', MsgCandidate ''c2'']\<rparr> \<and>
   onSignalSDP obliging_env ''offer'' buffering_peer =
     buffering_peer\<lparr>RemoteDescription := Some \<lparr>sdp_type = SDPTypeOffer, sdp_text = ''offer''\<rparr>,
       LocalDescription := Some \<lparr>sdp_type = SDPTypeAnswer, sdp_text = ''answer''\<rparr>,
       published := [MsgSDP ''answer'', MsgCandidate ''c1'', MsgCandidate ''c2'']\<rparr> \<and>
   send_buffered obliging_env (candidates closed_peer) closed_peer = closed_peer \<and>
   published (onConnICECandidate obliging_env (Some ''c3'') closed_peer) = []"
proof -
  note a = candidate_buffering [of buffering_peer obliging_env "''c3''" "''offer''"
      "\<lparr>sdp_type = SDPTypeOffer, sdp_text = ''offer''\<rparr>"
      "\<lparr>sdp_type = SDPTypeAnswer, sdp_text = ''answer''\<rparr>" "''answer''"]
  note b = candidate_buffering [of installed_peer obliging_env "''c3''" "''offer''"
      "\<lparr>sdp_type = SDPTypeOffer, sdp_text = ''offer''\<rparr>"
      "\<lparr>sdp_type = SDPTypeAnswer, sdp_text = ''answer''\<rparr>" "''answer''"]
  note c = candidate_buffering [of buffering_peer answering_env "''c3''" "''answer''"
      "\<lparr>sdp_type = SDPTypeAnswer, sdp_text = ''answer''\<rparr>"
      "\<lparr>sdp_type = SDPTypeAnswer, sdp_text = ''answer''\<rparr>" "''answer''"]
  note d = candidate_buffering [of closed_peer obliging_env "''c3''" "''offer''"
      "\<lparr>sdp_type = SDPTypeOffer, sdp_text = ''offer''\<rparr>"
      "\<lparr>sdp_type = SDPTypeAnswer, sdp_text = ''answer''\<rparr>" "''answer''"]
  have 1: "onConnICECandidate obliging_env (Some ''c3'') buffering_peer =
     buffering_peer\<lparr>candidates := [''c1'', ''c2'', ''c3'']\<rparr> \<and>
     onSignalSDP obliging_env ''offer'' buffering_peer =
     buffering_peer\<lparr>RemoteDescription := Some \<lparr>sdp_type = SDPTypeOffer, sdp_text = ''offer''\<rparr>,
       LocalDescription := Some \<lparr>sdp_type = SDPTypeAnswer, sdp_text = ''answer''\<rparr>,
       published := [MsgSDP ''answer'', MsgCandidate ''c1'', MsgCandidate ''c2'']\<rparr>"
    using a by (simp add: obliging_env_def buffering_peer_def fresh_peer_def)
  have 2: "candidates (onConnICECandidate obliging_env (Some ''c3'') installed_peer) = [''c1'', ''c2''] \<and>
     published (onConnICECandidate obliging_env (Some ''c3'') installed_peer) = [MsgCandidate ''c3'']"
    using b by (simp add: obliging_env_def installed_peer_def buffering_peer_def fresh_peer_def)
  have 3: "onSignalSDP answering_env ''answer'' buffering_peer =
     buffering_peer\<lparr>RemoteDescription := Some \<lparr>sdp_type = SDPTypeAnswer, sdp_text = ''answer''\<rparr>,
       published := [MsgCandidate ''c1'', MsgCandidate ''c2'']\<rparr>"
    using c by (simp add: answering_env_def obliging_env_def buffering_peer_def fresh_peer_def)
  have 4: "send_buffered obliging_env (candidates closed_peer) closed_peer = closed_peer \<and>
     published (onConnICECandidate obliging_env (Some ''c3'') closed_peer) = []"
    using d by (simp add: closed_peer_def installed_peer_def buffering_peer_def fresh_peer_def)
  from 1 2 3 4 show ?thesis by blast
qed

text \<open>
  The claim as stated (one flush, at the installation of the remote description) fails
  in two ways. A second offer publishes the buffered candidates a second time, since the
  buffer is never emptied. And when the answer to an offer cannot be published, the remote
  description is installed but the buffer is not flushed at all, while a later candidate
  is published at once.
\<close>

theorem candidate_flush_counterexample:
  "published (onSignalSDP obliging_env ''offer'' (onSignalSDP obliging_env ''offer'' buffering_peer)) =
     [MsgSDP ''answer'', MsgCandidate ''c1'', MsgCandidate ''c2'',
      MsgSDP ''answer'', MsgCandidate ''c1'', MsgCandidate ''c2''] \<and>
   RemoteDescription (onSignalSDP failing_env ''offer'' buffering_peer) =
     Some \<lparr>sdp_type = SDPTypeOffer, sdp_text = ''offer''\<rparr> \<and>
   published (onSignalSDP failing_env ''offer'' buffering_peer) = [] \<and>
   published (onConnICECandidate failing_env (Some ''c3'')
                (onSignalSDP failing_env ''offer'' buffering_peer)) = [MsgCandidate ''c3'']"
  by (simp add: onSignalSDP_def onSignalSDPOffer_def onConnICECandidate_def
      signalSendCandidate_def peer_log_Error_def failing_env_def obliging_env_def
      buffering_peer_def fresh_peer_def Let_def)

section \<open>Properties of the signaling mailbox\<close>

lemma request_loop_result_aux:
  assumes "request_loop srv req tr = Some y"
  shows "(\<exists>k. snd y = tr @ replicate (Suc k) req) \<and>
      (case fst y of Inl err \<Rightarrow> True | Inr resp \<Rightarrow> StatusCode resp \<noteq> StatusTooManyRequests)"
proof (rule request_loop.raw_induct [where P = "\<lambda>srv req tr y.
      (\<exists>k. snd y = tr @ replicate (Suc k) req) \<and>
      (case fst y of Inl err \<Rightarrow> True | Inr resp \<Rightarrow> StatusCode resp \<noteq> StatusTooManyRequests)",
      OF _ assms], goal_cases)
  case (1 loop srv req tr y)
  show ?case
  proof (cases "srv (length tr)")
    case (TransportError err)
    with 1(2) have "y = (Inl err, tr @ [req])" by simp
    then show ?thesis by (auto intro: exI [of _ 0])
  next
    case (Response resp)
    show ?thesis
    proof (cases "StatusCode resp = StatusTooManyRequests")
      case True
      with 1(2) Response have "loop srv req (tr @ [req]) = Some y" by simp
      from 1(1) [OF this] obtain k where k: "snd y = (tr @ [req]) @ replicate (Suc k) req"
        and c: "(case fst y of Inl err \<Rightarrow> True
                 | Inr resp \<Rightarrow> StatusCode resp \<noteq> StatusTooManyRequests)"
        by blast
      have "snd y = tr @ replicate (Suc (Suc k)) req"
        using k by (simp add: replicate_append_same)
      with c show ?thesis by blast
    next
      case False
      with 1(2) Response have "y = (Inr resp, tr @ [req])" by simp
      with False show ?thesis by (auto intro: exI [of _ 0])
    qed
  qed
qed

lemma request_loop_result:
  assumes "request_loop srv req tr = Some (r, tr')"
  shows "(\<exists>k. tr' = tr @ replicate (Suc k) req) \<and>
         (case r of Inl err \<Rightarrow> True | Inr resp \<Rightarrow> StatusCode resp \<noteq> StatusTooManyRequests)"
  using request_loop_result_aux [OF assms] by simp

lemma request_loop_returns_at:
  assumes "\<not> too_many (srv (length tr + k))"
  shows "\<exists>r. request_loop srv req tr = Some r"
  using assms
proof (induction k arbitrary: tr rule: less_induct)
  case (less k)
  show ?case
  proof (cases "too_many (srv (length tr))")
    case False
    then show ?thesis
      by (subst request_loop.simps) (auto simp: too_many_def split: http_reply.splits)
  next
    case True
    then have "k \<noteq> 0" using less.prems by (cases k) auto
    then obtain j where j: "k = Suc j" by (cases k) auto
    have "\<not> too_many (srv (length (tr @ [req]) + j))" using less.prems by (simp add: j)
    from less.IH [OF _ this] have "\<exists>r. request_loop srv req (tr @ [req]) = Some r"
      by (simp add: j)
    with True show ?thesis
      by (subst request_loop.simps) (auto simp: too_many_def split: http_reply.splits)
  qed
qed

lemma request_loop_returns:
  assumes "\<forall>n. \<exists>m \<ge> n. \<not> too_many (srv m)"
  shows "\<exists>r. request_loop srv req tr = Some r"
proof -
  from assms obtain m where "m \<ge> length tr" "\<not> too_many (srv m)" by blast
  then have "\<not> too_many (srv (length tr + (m - length tr)))" by simp
  then show ?thesis by (rule request_loop_returns_at)
qed

text \<open>
  Claim C9, as the code has it. For every response that \<open>request\<close> hands back (a 429 is
  sent again inside \<open>request\<close> and is never handed back): \<open>downloadFile\<close> fails with the
  status error for every status other than 200 and 404, and on 200 and 404 alike returns
  what decoding the body gives, the content or the decoding error unchanged;
  \<open>deleteFile\<close> fails with the status error for every status other than 200 and 403 and
  succeeds on those two. A transport error is returned as it is.
\<close>

theorem status_allow_lists:
  "(request cfg env MethodGet (''/'' @ fileKey) [(''Accept'', ''*/*'')] None tr
      = Some (Inr resp, tr') \<longrightarrow>
      StatusCode resp \<noteq> 429 \<and>
      downloadFile cfg env fileKey tr =
        Some (if StatusCode resp = 200 \<or> StatusCode resp = 404
              then json_Decode (parse_content env) (resp_body resp)
              else Inl (ErrResponseStatus (StatusCode resp)), tr')) \<and>
   (request cfg env MethodGet (''/'' @ fileKey) [(''Accept'', ''*/*'')] None tr
      = Some (Inl err, tr') \<longrightarrow>
      downloadFile cfg env fileKey tr = Some (Inl err, tr')) \<and>
   (request cfg env MethodDelete (''/'' @ fileKey) [(''Accept'', ''application/json'')] None tr
      = Some (Inr resp, tr') \<longrightarrow>
      StatusCode resp \<noteq> 429 \<and>
      deleteFile cfg env fileKey tr =
        Some (if StatusCode resp = 200 \<or> StatusCode resp = 403 then None
              else Some (ErrResponseStatus (StatusCode resp)), tr')) \<and>
   (request cfg env MethodDelete (''/'' @ fileKey) [(''Accept'', ''application/json'')] None tr
      = Some (Inl err, tr') \<longrightarrow>
      deleteFile cfg env fileKey tr = Some (Some err, tr'))"
proof -
  have no429: "StatusCode resp \<noteq> 429"
    if "request cfg env m urn hs b tr = Some (Inr resp, tr')" for m urn hs b
  proof -
    from that have "request_loop (server env) (build_request cfg m urn hs b) tr = Some (Inr resp, tr')"
      by (auto simp: request_def split: option.splits)
    from request_loop_result [OF this] show ?thesis
      by (simp add: StatusTooManyRequests_def)
  qed
  show ?thesis
    using no429
    by (auto simp: downloadFile_def deleteFile_def Let_def StatusOK_def StatusNotFound_def
        StatusForbidden_def)
qed

lemma request_first_reply:
  assumes "NewRequest_err env (''https://file.io'' @ urn) = None"
    and "server env (length tr) = Response resp"
    and "StatusCode resp \<noteq> StatusTooManyRequests"
  shows "request cfg env m urn hs b tr = Some (Inr resp, tr @ [build_request cfg m urn hs b])"
  using assms by (simp add: request_def request_loop.simps [of "server env"])

theorem status_allow_lists_witness:
  "downloadFile example_cfg (not_found_env ''{}'') ''k'' [] =
     Some (Inr \<lparr>Type = [], Payload = []\<rparr>,
           [build_request example_cfg MethodGet ''/k'' [(''Accept'', ''*/*'')] None]) \<and>
   deleteFile example_cfg forbidden_env ''k'' [] =
     Some (None, [build_request example_cfg MethodDelete ''/k'' [(''Accept'', ''application/json'')] None])"
proof -
  have a: "request example_cfg (not_found_env ''{}'') MethodGet (''/'' @ ''k'') [(''Accept'', ''*/*'')] None []
      = Some (Inr \<lparr>StatusCode = 404, resp_body = ''{}''\<rparr>,
              [] @ [build_request example_cfg MethodGet (''/'' @ ''k'') [(''Accept'', ''*/*'')] None])"
    by (rule request_first_reply) (simp_all add: not_found_env_def StatusTooManyRequests_def)
  have b: "request example_cfg forbidden_env MethodDelete (''/'' @ ''k'') [(''Accept'', ''application/json'')] None []
      = Some (Inr \<lparr>StatusCode = 403, resp_body = []\<rparr>,
              [] @ [build_request example_cfg MethodDelete (''/'' @ ''k'') [(''Accept'', ''application/json'')] None])"
    by (rule request_first_reply) (simp_all add: forbidden_env_def StatusTooManyRequests_def)
  from status_allow_lists [of example_cfg "not_found_env ''{}''" "''k''" "[]"
      "\<lparr>StatusCode = 404, resp_body = ''{}''\<rparr>"
      "[] @ [build_request example_cfg MethodGet (''/'' @ ''k'') [(''Accept'', ''*/*'')] None]"] a
  have "downloadFile example_cfg (not_found_env ''{}'') ''k'' [] =
     Some (Inr \<lparr>Type = [], Payload = []\<rparr>,
           [build_request example_cfg MethodGet ''/k'' [(''Accept'', ''*/*'')] None])"
    by (simp add: json_Decode_def not_found_env_def json_stub_def)
  moreover
  from status_allow_lists [of example_cfg forbidden_env "''k''" "[]"
      "\<lparr>StatusCode = 403, resp_body = []\<rparr>"
      "[] @ [build_request example_cfg MethodDelete (''/'' @ ''k'') [(''Accept'', ''application/json'')] None]"] b
  have "deleteFile example_cfg forbidden_env ''k'' [] =
     Some (None, [build_request example_cfg MethodDelete ''/k'' [(''Accept'', ''application/json'')] None])"
    by simp
  ultimately show ?thesis by blast
qed

text \<open>
  The claim as stated (a 404 is treated as empty content) fails: a 404 whose body has no
  bytes is a decoding error, \<open>io.EOF\<close>, and not a successful download.
\<close>

theorem not_found_empty_body_counterexample:
  "downloadFile example_cfg (not_found_env []) ''k'' [] =
     Some (Inl EOF, [build_request example_cfg MethodGet ''/k'' [(''Accept'', ''*/*'')] None])"
proof -
  have "request example_cfg (not_found_env []) MethodGet (''/'' @ ''k'') [(''Accept'', ''*/*'')] None []
      = Some (Inr \<lparr>StatusCode = 404, resp_body = []\<rparr>,
              [] @ [build_request example_cfg MethodGet (''/'' @ ''k'') [(''Accept'', ''*/*'')] None])"
    by (rule request_first_reply) (simp_all add: not_found_env_def StatusTooManyRequests_def)
  then show ?thesis
    by (simp add: downloadFile_def Let_def json_Decode_def StatusOK_def StatusNotFound_def)
qed

lemma request_returns:
  assumes "\<forall>n. \<exists>m \<ge> n. \<not> too_many (server env m)"
  shows "\<exists>r. request cfg env m urn hs b tr = Some r"
  using request_loop_returns [OF assms]
  by (simp add: request_def split: option.splits)

lemma request_trace:
  assumes "request cfg env m urn hs b tr = Some (r, tr')"
  shows "(NewRequest_err env (''https://file.io'' @ urn) \<noteq> None \<and> tr' = tr \<and> (\<exists>e. r = Inl e)) \<or>
         (NewRequest_err env (''https://file.io'' @ urn) = None \<and>
          (\<exists>k. tr' = tr @ replicate (Suc k) (build_request cfg m urn hs b)))"
proof (cases "NewRequest_err env (''https://file.io'' @ urn)")
  case None
  with assms have "request_loop (server env) (build_request cfg m urn hs b) tr = Some (r, tr')"
    by (simp add: request_def)
  from request_loop_result [OF this] None show ?thesis by blast
next
  case (Some e)
  with assms show ?thesis by (auto simp: request_def)
qed

lemma findFiles_trace:
  assumes "findFiles cfg env pattern tr = Some (Inr found, tr')"
  shows "\<exists>ext. tr' = tr @ ext \<and> set ext = {search_request cfg pattern}"
proof -
  from assms obtain resp where
    r: "request cfg env MethodGet (''/?search='' @ pattern @ ''&sort=created:asc'')
          [(''Accept'', ''application/json'')] None tr = Some (Inr resp, tr')"
    by (auto simp: findFiles_def Let_def split: option.splits sum.splits if_splits)
  from request_trace [OF r] obtain k where
    k: "tr' = tr @ replicate (Suc k) (search_request cfg pattern)"
    by (auto simp: search_request_def)
  show ?thesis
    by (rule exI [of _ "replicate (Suc k) (search_request cfg pattern)"]) (use k in auto)
qed

lemma deleteFile_returns:
  assumes "\<forall>n. \<exists>m \<ge> n. \<not> too_many (server env m)"
  shows "\<exists>r. deleteFile cfg env fileKey tr = Some r"
proof -
  obtain r where "request cfg env MethodDelete (''/'' @ fileKey) [(''Accept'', ''application/json'')] None tr = Some r"
    using request_returns [OF assms] by blast
  then show ?thesis
    by (cases r) (auto simp: deleteFile_def Let_def split: sum.splits)
qed

lemma deleteFile_trace:
  assumes "deleteFile cfg env fileKey tr = Some (e, tr')"
    and "NewRequest_err env (''https://file.io/'' @ fileKey) = None"
  shows "\<exists>ext. tr' = tr @ ext \<and> set ext = {delete_request cfg fileKey}"
proof -
  from assms(1) obtain r where
    r: "request cfg env MethodDelete (''/'' @ fileKey) [(''Accept'', ''application/json'')] None tr
          = Some (r, tr')"
    by (auto simp: deleteFile_def Let_def split: option.splits sum.splits if_splits)
  from request_trace [OF r] assms(2) obtain k where
    k: "tr' = tr @ replicate (Suc k) (delete_request cfg fileKey)"
    by (auto simp: delete_request_def)
  show ?thesis
    by (rule exI [of _ "replicate (Suc k) (delete_request cfg fileKey)"]) (use k in auto)
qed

lemma uploadPing_returns:
  assumes "\<forall>n. \<exists>m \<ge> n. \<not> too_many (server env m)"
  shows "\<exists>r. uploadPing cfg env tr = Some r"
proof -
  obtain r where "request cfg env MethodPost ''/''
       [(''Accept'', ''application/json''),
        (''Content-Type'', ''multipart/form-data; boundary=---011000010111000001101001'')]
       (Some \<lparr>boundary = ''---011000010111000001101001'',
              form_file_name = SessionID cfg @ ''_ping_'' @ InstanceID cfg @ ''.json'',
              form_file = \<lparr>Type = ''ping'', Payload = []\<rparr>,
              form_fields = [(''expires'', ''10m''), (''maxDownloads'', ''1''),
                             (''autoDelete'', ''true'')]\<rparr>) tr = Some r"
    using request_returns [OF assms] by blast
  then show ?thesis
    by (cases r) (auto simp: uploadPing_def uploadFile_def Let_def fileIoFileContentTypePing_def
        split: sum.splits)
qed

lemma uploadPing_trace:
  assumes "uploadPing cfg env tr = Some (None, tr')"
  shows "\<exists>ext. tr' = tr @ ext \<and> set ext = {ping_upload_request cfg}"
proof -
  from assms obtain resp where
    r: "request cfg env MethodPost ''/''
       [(''Accept'', ''application/json''),
        (''Content-Type'', ''multipart/form-data; boundary=---011000010111000001101001'')]
       (Some \<lparr>boundary = ''---011000010111000001101001'',
              form_file_name = SessionID cfg @ ''_ping_'' @ InstanceID cfg @ ''.json'',
              form_file = \<lparr>Type = ''ping'', Payload = []\<rparr>,
              form_fields = [(''expires'', ''10m''), (''maxDownloads'', ''1''),
                             (''autoDelete'', ''true'')]\<rparr>) tr = Some (Inr resp, tr')"
    by (auto simp: uploadPing_def uploadFile_def Let_def fileIoFileContentTypePing_def
        split: option.splits sum.splits if_splits)
  from request_trace [OF r] obtain k where
    k: "tr' = tr @ replicate (Suc k) (ping_upload_request cfg)"
    by (auto simp: ping_upload_request_def)
  show ?thesis
    by (rule exI [of _ "replicate (Suc k) (ping_upload_request cfg)"]) (use k in auto)
qed

lemma delete_nodes_spec:
  assumes "\<forall>n. \<exists>m \<ge> n. \<not> too_many (server env m)"
    and "list_all (\<lambda>node. NewRequest_err env (''https://file.io/'' @ Key node) = None) nodes"
  shows "\<exists>st' ext. delete_nodes cfg env nodes st = Some st' \<and> sent st' = sent st @ ext \<and>
           set ext = (\<lambda>node. delete_request cfg (Key node)) ` set nodes \<and> app st' = app st"
  using assms(2)
proof (induction nodes arbitrary: st)
  case Nil
  then show ?case by simp
next
  case (Cons node nodes)
  obtain e tr' where d: "deleteFile cfg env (Key node) (sent st) = Some (e, tr')"
    using deleteFile_returns [OF assms(1)] by (metis surj_pair)
  from Cons.prems have ok: "NewRequest_err env (''https://file.io/'' @ Key node) = None"
    and rest: "list_all (\<lambda>node. NewRequest_err env (''https://file.io/'' @ Key node) = None) nodes"
    by simp_all
  from deleteFile_trace [OF d ok] obtain ext1 where
    ext1: "tr' = sent st @ ext1" "set ext1 = {delete_request cfg (Key node)}" by blast
  define st1 where "st1 = (case e of Some err \<Rightarrow> sig_log_Error err (st\<lparr>sent := tr'\<rparr>)
                           | None \<Rightarrow> st\<lparr>sent := tr'\<rparr>)"
  have st1: "sent st1 = tr'" "app st1 = app st"
    by (simp_all add: st1_def sig_log_Error_def split: option.splits)
  have step: "delete_nodes cfg env (node # nodes) st = delete_nodes cfg env nodes st1"
    using d by (simp add: st1_def split: option.splits)
  from Cons.IH [OF rest, of st1] obtain st' ext2 where
    "delete_nodes cfg env nodes st1 = Some st'" "sent st' = sent st1 @ ext2"
    "set ext2 = (\<lambda>node. delete_request cfg (Key node)) ` set nodes" "app st' = app st1"
    by blast
  then have "delete_nodes cfg env (node # nodes) st = Some st' \<and>
      sent st' = sent st @ (ext1 @ ext2) \<and>
      set (ext1 @ ext2) = (\<lambda>node. delete_request cfg (Key node)) ` set (node # nodes) \<and>
      app st' = app st"
    using step st1 ext1 by simp
  then show ?case by blast
qed

text \<open>
  Claim C7 (role election). The server does not answer 429 for ever, the search for
  \<open>${SessionID}_ping\<close> has returned a listing, and the URLs of the listed keys are accepted.
  Then: the requests sent so far by \<open>Ping\<close> are that search. When the listing is empty,
  \<open>Ping\<close> uploads the ping entry named \<open>${SessionID}_ping_${InstanceID}.json\<close> and, when the
  upload succeeds, returns \<open>ErrNoCandidatesFound\<close> (when it fails, the error of the
  upload). When the listing is not empty, \<open>Ping\<close> returns no error, whatever the
  answers to the deletions are, and the requests it sent after the search are exactly the
  deletions of the listed keys.
\<close>

theorem Ping_role_election:
  assumes "\<forall>n. \<exists>m \<ge> n. \<not> too_many (server env m)"
    and "findPing cfg env (sent st) = Some (Inr found, tr1)"
    and "list_all (\<lambda>node. NewRequest_err env (''https://file.io/'' @ Key node) = None) (Nodes found)"
  shows "(\<exists>ext. tr1 = sent st @ ext \<and> set ext = {search_request cfg (SessionID cfg @ ''_ping'')}) \<and>
    (Nodes found = [] \<longrightarrow>
       (\<exists>e tr2. uploadPing cfg env tr1 = Some (e, tr2) \<and>
          Ping cfg env st =
            Some (case e of None \<Rightarrow> Some ErrNoCandidatesFound | Some err \<Rightarrow> Some err,
                  st\<lparr>sent := tr2\<rparr>) \<and>
          (e = None \<longrightarrow> (\<exists>ext. tr2 = tr1 @ ext \<and> set ext = {ping_upload_request cfg})))) \<and>
    (Nodes found \<noteq> [] \<longrightarrow>
       (\<exists>st' ext. Ping cfg env st = Some (None, st') \<and> sent st' = tr1 @ ext \<and>
          set ext = (\<lambda>node. delete_request cfg (Key node)) ` set (Nodes found) \<and>
          app st' = app st))"
proof (intro conjI impI)
  show "\<exists>ext. tr1 = sent st @ ext \<and> set ext = {search_request cfg (SessionID cfg @ ''_ping'')}"
    using findFiles_trace [of cfg env "SessionID cfg @ ''_ping''" "sent st" found tr1] assms(2)
    by (simp add: findPing_def fileIoFileContentTypePing_def)
next
  assume empty: "Nodes found = []"
  obtain e tr2 where u: "uploadPing cfg env tr1 = Some (e, tr2)"
    using uploadPing_returns [OF assms(1)] by (metis surj_pair)
  have "Ping cfg env st =
            Some (case e of None \<Rightarrow> Some ErrNoCandidatesFound | Some err \<Rightarrow> Some err,
                  st\<lparr>sent := tr2\<rparr>)"
    using assms(2) empty u by (simp add: Ping_def split: option.splits)
  moreover have "e = None \<longrightarrow> (\<exists>ext. tr2 = tr1 @ ext \<and> set ext = {ping_upload_request cfg})"
    using u uploadPing_trace by blast
  ultimately show "\<exists>e tr2. uploadPing cfg env tr1 = Some (e, tr2) \<and>
          Ping cfg env st =
            Some (case e of None \<Rightarrow> Some ErrNoCandidatesFound | Some err \<Rightarrow> Some err,
                  st\<lparr>sent := tr2\<rparr>) \<and>
          (e = None \<longrightarrow> (\<exists>ext. tr2 = tr1 @ ext \<and> set ext = {ping_upload_request cfg}))"
    using u by blast
next
  assume nonempty: "Nodes found \<noteq> []"
  from delete_nodes_spec [OF assms(1,3), of cfg "st\<lparr>sent := tr1\<rparr>"] obtain st' ext where
    d: "delete_nodes cfg env (Nodes found) (st\<lparr>sent := tr1\<rparr>) = Some st'"
      "sent st' = tr1 @ ext"
      "set ext = (\<lambda>node. delete_request cfg (Key node)) ` set (Nodes found)"
      "app st' = app st"
    by auto
  have "Ping cfg env st = Some (None, st')"
    using assms(2) nonempty d(1) by (simp add: Ping_def)
  with d show "\<exists>st' ext. Ping cfg env st = Some (None, st') \<and> sent st' = tr1 @ ext \<and>
          set ext = (\<lambda>node. delete_request cfg (Key node)) ` set (Nodes found) \<and>
          app st' = app st"
    by blast
qed

lemma findPing_listing:
  "findPing example_cfg listing_env [] =
     Some (Inr \<lparr>Nodes = [\<lparr>Key = ''k1'', Name = ''sid_ping_other.json''\<rparr>]\<rparr>,
           [search_request example_cfg ''sid_ping''])"
proof -
  have "request example_cfg listing_env MethodGet (''/?search='' @ ''sid_ping'' @ ''&sort=created:asc'')
          [(''Accept'', ''application/json'')] None []
      = Some (Inr \<lparr>StatusCode = 200, resp_body = ''listing''\<rparr>,
              [] @ [build_request example_cfg MethodGet
                      (''/?search='' @ ''sid_ping'' @ ''&sort=created:asc'')
                      [(''Accept'', ''application/json'')] None])"
    by (rule request_first_reply) (simp_all add: listing_env_def StatusTooManyRequests_def)
  then show ?thesis
    by (simp add: findPing_def findFiles_def Let_def fileIoFileContentTypePing_def example_cfg_def
        search_request_def StatusOK_def json_Decode_def)
       (simp add: listing_env_def)
qed

lemma Ping_listing_run:
  "Ping example_cfg listing_env idle_signaling =
     Some (None, \<lparr>sent = [search_request example_cfg ''sid_ping'', delete_request example_cfg ''k1''],
                  sig_logged = [LogError (ErrResponseStatus 500)], app = ()\<rparr>)"
proof -
  have "request example_cfg listing_env MethodDelete (''/'' @ ''k1'')
          [(''Accept'', ''application/json'')] None [search_request example_cfg ''sid_ping'']
      = Some (Inr \<lparr>StatusCode = 500, resp_body = []\<rparr>,
              [search_request example_cfg ''sid_ping''] @
              [build_request example_cfg MethodDelete (''/'' @ ''k1'')
                 [(''Accept'', ''application/json'')] None])"
    by (rule request_first_reply) (simp_all add: listing_env_def StatusTooManyRequests_def)
  then have "deleteFile example_cfg listing_env ''k1'' [search_request example_cfg ''sid_ping''] =
      Some (Some (ErrResponseStatus 500),
            [search_request example_cfg ''sid_ping'', delete_request example_cfg ''k1''])"
    by (simp add: deleteFile_def Let_def delete_request_def StatusOK_def StatusForbidden_def)
  then show ?thesis
    using findPing_listing
    by (simp add: Ping_def idle_signaling_def sig_log_Error_def)
qed

lemma findPing_quiet:
  "findPing example_cfg quiet_env [] =
     Some (Inr \<lparr>Nodes = []\<rparr>, [search_request example_cfg ''sid_ping''])"
proof -
  have "request example_cfg quiet_env MethodGet (''/?search='' @ ''sid_ping'' @ ''&sort=created:asc'')
          [(''Accept'', ''application/json'')] None []
      = Some (Inr \<lparr>StatusCode = 200, resp_body = ''{}''\<rparr>,
              [] @ [build_request example_cfg MethodGet
                      (''/?search='' @ ''sid_ping'' @ ''&sort=created:asc'')
                      [(''Accept'', ''application/json'')] None])"
    by (rule request_first_reply) (simp_all add: quiet_env_def StatusTooManyRequests_def)
  then show ?thesis
    by (simp add: findPing_def findFiles_def Let_def fileIoFileContentTypePing_def example_cfg_def
        search_request_def StatusOK_def json_Decode_def)
       (simp add: quiet_env_def)
qed

lemma uploadPing_quiet:
  "uploadPing example_cfg quiet_env [search_request example_cfg ''sid_ping''] =
     Some (None, [search_request example_cfg ''sid_ping'', ping_upload_request example_cfg])"
proof -
  have "request example_cfg quiet_env MethodPost ''/''
       [(''Accept'', ''application/json''),
        (''Content-Type'', ''multipart/form-data; boundary='' @ ''---011000010111000001101001'')]
       (Some \<lparr>boundary = ''---011000010111000001101001'',
              form_file_name = SessionID example_cfg @ ''_'' @ fileIoFileContentTypePing @ ''_''
                @ InstanceID example_cfg @ ''.json'',
              form_file = \<lparr>Type = fileIoFileContentTypePing, Payload = []\<rparr>,
              form_fields = [(''expires'', ''10m''), (''maxDownloads'', ''1''),
                             (''autoDelete'', ''true'')]\<rparr>) [search_request example_cfg ''sid_ping'']
     = Some (Inr \<lparr>StatusCode = 200, resp_body = ''{}''\<rparr>,
         [search_request example_cfg ''sid_ping''] @
         [build_request example_cfg MethodPost ''/''
       [(''Accept'', ''application/json''),
        (''Content-Type'', ''multipart/form-data; boundary='' @ ''---011000010111000001101001'')]
       (Some \<lparr>boundary = ''---011000010111000001101001'',
              form_file_name = SessionID example_cfg @ ''_'' @ fileIoFileContentTypePing @ ''_''
                @ InstanceID example_cfg @ ''.json'',
              form_file = \<lparr>Type = fileIoFileContentTypePing, Payload = []\<rparr>,
              form_fields = [(''expires'', ''10m''), (''maxDownloads'', ''1''),
                             (''autoDelete'', ''true'')]\<rparr>)])"
    by (rule request_first_reply) (simp_all add: quiet_env_def StatusTooManyRequests_def)
  then show ?thesis
    by (simp add: uploadPing_def uploadFile_def Let_def StatusOK_def ping_upload_request_def
        fileIoFileContentTypePing_def)
qed

theorem Ping_role_election_witness:
  "Ping example_cfg quiet_env idle_signaling =
     Some (Some ErrNoCandidatesFound,
           idle_signaling\<lparr>sent := [search_request example_cfg ''sid_ping'',
                                    ping_upload_request example_cfg]\<rparr>) \<and>
   Ping example_cfg listing_env idle_signaling =
     Some (None, \<lparr>sent = [search_request example_cfg ''sid_ping'', delete_request example_cfg ''k1''],
                  sig_logged = [LogError (ErrResponseStatus 500)], app = ()\<rparr>) \<and>
   (\<exists>st'. Ping example_cfg listing_env idle_signaling = Some (None, st') \<and>
          set (sent st') = {search_request example_cfg ''sid_ping'', delete_request example_cfg ''k1''})"
proof -
  have quiet_live: "\<forall>n. \<exists>m \<ge> n. \<not> too_many (server quiet_env m)"
    by (auto simp: quiet_env_def too_many_def StatusTooManyRequests_def)
  have quiet_found: "findPing example_cfg quiet_env (sent idle_signaling) =
     Some (Inr \<lparr>Nodes = []\<rparr>, [search_request example_cfg ''sid_ping''])"
    using findPing_quiet by (simp add: idle_signaling_def)
  have quiet_urls: "list_all (\<lambda>node. NewRequest_err quiet_env (''https://file.io/'' @ Key node) = None)
      (Nodes \<lparr>Nodes = []\<rparr>)"
    by simp
  from Ping_role_election [OF quiet_live quiet_found quiet_urls] obtain e tr2 where
    "uploadPing example_cfg quiet_env [search_request example_cfg ''sid_ping''] = Some (e, tr2)"
    "Ping example_cfg quiet_env idle_signaling =
       Some (case e of None \<Rightarrow> Some ErrNoCandidatesFound | Some err \<Rightarrow> Some err,
             idle_signaling\<lparr>sent := tr2\<rparr>)"
    by auto
  with uploadPing_quiet have answerer: "Ping example_cfg quiet_env idle_signaling =
     Some (Some ErrNoCandidatesFound,
           idle_signaling\<lparr>sent := [search_request example_cfg ''sid_ping'',
                                    ping_upload_request example_cfg]\<rparr>)"
    by simp
  have live: "\<forall>n. \<exists>m \<ge> n. \<not> too_many (server listing_env m)"
    by (auto simp: listing_env_def too_many_def StatusTooManyRequests_def)
  have found: "findPing example_cfg listing_env (sent idle_signaling) =
     Some (Inr \<lparr>Nodes = [\<lparr>Key = ''k1'', Name = ''sid_ping_other.json''\<rparr>]\<rparr>,
           [search_request example_cfg ''sid_ping''])"
    using findPing_listing by (simp add: idle_signaling_def)
  have urls: "list_all (\<lambda>node. NewRequest_err listing_env (''https://file.io/'' @ Key node) = None)
      (Nodes \<lparr>Nodes = [\<lparr>Key = ''k1'', Name = ''sid_ping_other.json''\<rparr>]\<rparr>)"
    by (simp add: listing_env_def)
  from Ping_role_election [OF live found urls] obtain st' ext where
    "Ping example_cfg listing_env idle_signaling = Some (None, st')"
    "sent st' = [search_request example_cfg ''sid_ping''] @ ext"
    "set ext = (\<lambda>node. delete_request example_cfg (Key node)) `
       set (Nodes \<lparr>Nodes = [\<lparr>Key = ''k1'', Name = ''sid_ping_other.json''\<rparr>]\<rparr>)"
    by auto
  then have "\<exists>st'. Ping example_cfg listing_env idle_signaling = Some (None, st') \<and>
      set (sent st') = {search_request example_cfg ''sid_ping'', delete_request example_cfg ''k1''}"
    by auto
  with answerer Ping_listing_run show ?thesis by blast
qed

lemma sniff_nodes_calls:
  "sniff_nodes cfg env h nodes st = Some (calls, st') \<Longrightarrow>
   list_all (\<lambda>c. dispatch_ok cfg c \<and> call_node c \<in> set nodes) calls"
proof (induction nodes arbitrary: st calls st')
  case Nil
  then show ?case by simp
next
  case (Cons node nodes)
  have mono: "list_all (\<lambda>c. dispatch_ok cfg c \<and> call_node c \<in> set (node # nodes)) cs"
    if "list_all (\<lambda>c. dispatch_ok cfg c \<and> call_node c \<in> set nodes) cs" for cs
    using that by (auto simp: list_all_iff)
  show ?case
  proof (cases "strings_Contains (Name node) (InstanceID cfg)")
    case True
    with Cons.prems have "sniff_nodes cfg env h nodes st = Some (calls, st')" by simp
    from Cons.IH [OF this] show ?thesis by (rule mono)
  next
    case own: False
    from Cons.prems own obtain r tr' where
      d: "downloadFile cfg env (Key node) (sent st) = Some (r, tr')"
      by (cases "downloadFile cfg env (Key node) (sent st)") auto
    show ?thesis
    proof (cases r)
      case (Inl err)
      with Cons.prems own d have
        "sniff_nodes cfg env h nodes (sig_log_Error err (st\<lparr>sent := tr'\<rparr>)) = Some (calls, st')"
        by simp
      from Cons.IH [OF this] show ?thesis by (rule mono)
    next
      case (Inr content)
      consider (sdp) "Type content = fileIoFileContentTypeSDP"
        | (cand) "Type content \<noteq> fileIoFileContentTypeSDP"
                 "Type content = fileIoFileContentTypeCandidate"
        | (other) "Type content \<noteq> fileIoFileContentTypeSDP"
                  "Type content \<noteq> fileIoFileContentTypeCandidate"
        by blast
      then show ?thesis
      proof cases
        case sdp
        with Cons.prems own d Inr obtain st1 calls1 where
          "sniff_nodes cfg env h nodes st1 = Some (calls1, st')"
          "calls = \<lparr>call_handler = SDPHandler, call_node = node,
                     call_content = content, call_payload = Payload content\<rparr> # calls1"
          by (auto split: option.splits)
        note c = this
        have "list_all (\<lambda>c. dispatch_ok cfg c \<and> call_node c \<in> set (node # nodes)) calls1"
          by (rule mono [OF Cons.IH [OF c(1)]])
        with own sdp show ?thesis
          by (simp add: c(2) dispatch_ok_def fileIoFileContentTypeSDP_def)
      next
        case cand
        with Cons.prems own d Inr obtain st1 calls1 where
          "sniff_nodes cfg env h nodes st1 = Some (calls1, st')"
          "calls = \<lparr>call_handler = CandidateHandler, call_node = node,
                     call_content = content, call_payload = Payload content\<rparr> # calls1"
          by (auto split: option.splits)
        note c = this
        have "list_all (\<lambda>c. dispatch_ok cfg c \<and> call_node c \<in> set (node # nodes)) calls1"
          by (rule mono [OF Cons.IH [OF c(1)]])
        with own cand show ?thesis
          by (simp add: c(2) dispatch_ok_def fileIoFileContentTypeCandidate_def)
      next
        case other
        with Cons.prems own d Inr have
          "sniff_nodes cfg env h nodes (st\<lparr>sent := tr'\<rparr>) = Some (calls, st')"
          by simp
        from Cons.IH [OF this] show ?thesis by (rule mono)
      qed
    qed
  qed
qed

text \<open>
  The list of calls is what the handlers see: handlers that record each invocation in
  \<open>app\<close> end with exactly the calls listed, in the same order.
\<close>

lemma recorded_calls:
  "sniff_nodes cfg env recording_handlers nodes st = Some (calls, st') \<Longrightarrow>
   app st' = app st @ map (\<lambda>c. (call_handler c, call_payload c)) calls"
proof (induction nodes arbitrary: st calls st')
  case Nil
  then show ?case by simp
next
  case (Cons node nodes)
  show ?case
  proof (cases "strings_Contains (Name node) (InstanceID cfg)")
    case True
    with Cons show ?thesis by simp
  next
    case own: False
    from Cons.prems own obtain r tr' where
      d: "downloadFile cfg env (Key node) (sent st) = Some (r, tr')"
      by (cases "downloadFile cfg env (Key node) (sent st)") auto
    show ?thesis
    proof (cases r)
      case (Inl err)
      with Cons.prems own d have
        "sniff_nodes cfg env recording_handlers nodes (sig_log_Error err (st\<lparr>sent := tr'\<rparr>))
           = Some (calls, st')"
        by simp
      from Cons.IH [OF this] show ?thesis by (simp add: sig_log_Error_def)
    next
      case (Inr content)
      consider (sdp) "Type content = fileIoFileContentTypeSDP"
        | (cand) "Type content \<noteq> fileIoFileContentTypeSDP"
                 "Type content = fileIoFileContentTypeCandidate"
        | (other) "Type content \<noteq> fileIoFileContentTypeSDP"
                  "Type content \<noteq> fileIoFileContentTypeCandidate"
        by blast
      then show ?thesis
      proof cases
        case sdp
        with Cons.prems own d Inr obtain calls1 where
          c: "sniff_nodes cfg env recording_handlers nodes
                (st\<lparr>sent := tr', app := app st @ [(SDPHandler, Payload content)]\<rparr>)
              = Some (calls1, st')"
          "calls = \<lparr>call_handler = SDPHandler, call_node = node,
                     call_content = content, call_payload = Payload content\<rparr> # calls1"
          by (auto simp: recording_handlers_def)
        from Cons.IH [OF c(1)] show ?thesis by (simp add: c(2))
      next
        case cand
        with Cons.prems own d Inr obtain calls1 where
          c: "sniff_nodes cfg env recording_handlers nodes
                (st\<lparr>sent := tr', app := app st @ [(CandidateHandler, Payload content)]\<rparr>)
              = Some (calls1, st')"
          "calls = \<lparr>call_handler = CandidateHandler, call_node = node,
                     call_content = content, call_payload = Payload content\<rparr> # calls1"
          by (auto simp: recording_handlers_def)
        from Cons.IH [OF c(1)] show ?thesis by (simp add: c(2))
      next
        case other
        with Cons.prems own d Inr have
          "sniff_nodes cfg env recording_handlers nodes (st\<lparr>sent := tr'\<rparr>) = Some (calls, st')"
          by simp
        from Cons.IH [OF this] show ?thesis by simp
      qed
    qed
  qed
qed

text \<open>
  Claim C8 (author exclusion). Every handler call that \<open>sniffCandidates\<close> makes is for an
  entry whose name does not contain the instance's own \<open>InstanceID\<close>, passes the payload
  of the downloaded content, and goes to the SDP handler only for content of type \<open>sdp\<close>
  and to the candidate handler only for content of type \<open>candidate\<close>. Once the search has
  returned a listing, \<open>sniffCandidates\<close> is the loop over all of its entries, and for every
  listing \<open>node # nodes\<close> the loop treats the first entry as follows and then goes on
  with the remaining entries \<open>nodes\<close>: an entry whose name contains the \<open>InstanceID\<close> is
  skipped without a download; an entry that does not and whose download fails is logged
  and skipped; an entry that does not, once downloaded, goes to the SDP handler when its
  type is \<open>sdp\<close>, to the candidate handler when its type is \<open>candidate\<close>, and to no
  handler otherwise. On the empty listing the loop makes no call.
\<close>

theorem sniff_author_exclusion:
  "(sniffCandidates cfg env h st = Some (err, calls, st') \<longrightarrow> list_all (dispatch_ok cfg) calls) \<and>
   (findFiles cfg env (SessionID cfg) (sent st) = Some (Inr found, tr) \<longrightarrow>
      sniffCandidates cfg env h st =
        map_option (\<lambda>(cs, s). (None, cs, s))
          (sniff_nodes cfg env h (Nodes found) (st\<lparr>sent := tr\<rparr>))) \<and>
   sniff_nodes cfg env h [] st = Some ([], st) \<and>
   (strings_Contains (Name node) (InstanceID cfg) \<longrightarrow>
      sniff_nodes cfg env h (node # nodes) st = sniff_nodes cfg env h nodes st) \<and>
   (\<not> strings_Contains (Name node) (InstanceID cfg) \<and>
    downloadFile cfg env (Key node) (sent st) = Some (Inl e, tr') \<longrightarrow>
      sniff_nodes cfg env h (node # nodes) st =
        sniff_nodes cfg env h nodes (sig_log_Error e (st\<lparr>sent := tr'\<rparr>))) \<and>
   (\<not> strings_Contains (Name node) (InstanceID cfg) \<and>
    downloadFile cfg env (Key node) (sent st) = Some (Inr content, tr') \<longrightarrow>
      sniff_nodes cfg env h (node # nodes) st =
        (if Type content = ''sdp''
         then (case sdpHandler h (Payload content) (st\<lparr>sent := tr'\<rparr>) of
                 None \<Rightarrow> None
               | Some s \<Rightarrow>
                   map_option
                     (\<lambda>(cs, s'). (\<lparr>call_handler = SDPHandler, call_node = node,
                         call_content = content, call_payload = Payload content\<rparr> # cs, s'))
                     (sniff_nodes cfg env h nodes s))
         else if Type content = ''candidate''
         then (case candidateHandler h (Payload content) (st\<lparr>sent := tr'\<rparr>) of
                 None \<Rightarrow> None
               | Some s \<Rightarrow>
                   map_option
                     (\<lambda>(cs, s'). (\<lparr>call_handler = CandidateHandler, call_node = node,
                         call_content = content, call_payload = Payload content\<rparr> # cs, s'))
                     (sniff_nodes cfg env h nodes s))
         else sniff_nodes cfg env h nodes (st\<lparr>sent := tr'\<rparr>)))"
proof (intro conjI impI)
  assume a: "sniffCandidates cfg env h st = Some (err, calls, st')"
  show "list_all (dispatch_ok cfg) calls"
  proof (cases "findFiles cfg env (SessionID cfg) (sent st)")
    case None
    with a show ?thesis by (simp add: sniffCandidates_def)
  next
    case (Some res)
    obtain r tr2 where res: "res = (r, tr2)" by (cases res)
    show ?thesis
    proof (cases r)
      case (Inl e)
      with a Some res show ?thesis by (simp add: sniffCandidates_def)
    next
      case (Inr found)
      with a Some res have
        "sniff_nodes cfg env h (Nodes found) (st\<lparr>sent := tr2\<rparr>) = Some (calls, st')"
        by (auto simp: sniffCandidates_def)
      from sniff_nodes_calls [OF this] show ?thesis by (auto simp: list_all_iff)
    qed
  qed
next
  assume "findFiles cfg env (SessionID cfg) (sent st) = Some (Inr found, tr)"
  then show "sniffCandidates cfg env h st =
        map_option (\<lambda>(cs, s). (None, cs, s))
          (sniff_nodes cfg env h (Nodes found) (st\<lparr>sent := tr\<rparr>))"
    by (simp add: sniffCandidates_def)
next
  show "sniff_nodes cfg env h [] st = Some ([], st)" by simp
next
  assume "strings_Contains (Name node) (InstanceID cfg)"
  then show "sniff_nodes cfg env h (node # nodes) st = sniff_nodes cfg env h nodes st" by simp
next
  assume "\<not> strings_Contains (Name node) (InstanceID cfg) \<and>
    downloadFile cfg env (Key node) (sent st) = Some (Inl e, tr')"
  then show "sniff_nodes cfg env h (node # nodes) st =
        sniff_nodes cfg env h nodes (sig_log_Error e (st\<lparr>sent := tr'\<rparr>))"
    by simp
next
  assume "\<not> strings_Contains (Name node) (InstanceID cfg) \<and>
    downloadFile cfg env (Key node) (sent st) = Some (Inr content, tr')"
  then show "sniff_nodes cfg env h (node # nodes) st =
        (if Type content = ''sdp''
         then (case sdpHandler h (Payload content) (st\<lparr>sent := tr'\<rparr>) of
                 None \<Rightarrow> None
               | Some s \<Rightarrow>
                   map_option
                     (\<lambda>(cs, s'). (\<lparr>call_handler = SDPHandler, call_node = node,
                         call_content = content, call_payload = Payload content\<rparr> # cs, s'))
                     (sniff_nodes cfg env h nodes s))
         else if Type content = ''candidate''
         then (case candidateHandler h (Payload content) (st\<lparr>sent := tr'\<rparr>) of
                 None \<Rightarrow> None
               | Some s \<Rightarrow>
                   map_option
                     (\<lambda>(cs, s'). (\<lparr>call_handler = CandidateHandler, call_node = node,
                         call_content = content, call_payload = Payload content\<rparr> # cs, s'))
                     (sniff_nodes cfg env h nodes s))
         else sniff_nodes cfg env h nodes (st\<lparr>sent := tr'\<rparr>))"
    by (simp add: fileIoFileContentTypeSDP_def fileIoFileContentTypeCandidate_def)
qed

text \<open>
  A download whose first reply is not a 429, and the downloads of a poll of \<open>poll_env\<close>.
\<close>

lemma downloadFile_first_reply:
  assumes "NewRequest_err env (''https://file.io'' @ ''/'' @ fileKey) = None"
    and "server env (length tr) = Response resp"
    and "StatusCode resp \<noteq> StatusTooManyRequests"
  shows "downloadFile cfg env fileKey tr =
     Some (if StatusCode resp \<noteq> StatusOK \<and> StatusCode resp \<noteq> StatusNotFound
           then Inl (ErrResponseStatus (StatusCode resp))
           else json_Decode (parse_content env) (resp_body resp),
           tr @ [build_request cfg MethodGet (''/'' @ fileKey) [(''Accept'', ''*/*'')] None])"
  using request_first_reply [OF assms, of cfg MethodGet "[(''Accept'', ''*/*'')]" None]
  by (simp add: downloadFile_def Let_def)

lemma poll_env_replies:
  "NewRequest_err poll_env u = None"
  "server poll_env (Suc 0) = Response \<lparr>StatusCode = 200, resp_body = ''blob1''\<rparr>"
  "server poll_env (Suc (Suc 0)) = Response \<lparr>StatusCode = 500, resp_body = []\<rparr>"
  "server poll_env (Suc (Suc (Suc 0))) = Response \<lparr>StatusCode = 200, resp_body = ''blob3''\<rparr>"
  "server poll_env (Suc (Suc (Suc (Suc 0)))) = Response \<lparr>StatusCode = 200, resp_body = ''blob4''\<rparr>"
  "parse_content poll_env ''blob1'' = Inr \<lparr>Type = ''sdp'', Payload = ''offer''\<rparr>"
  "parse_content poll_env ''blob3'' = Inr \<lparr>Type = ''ping'', Payload = []\<rparr>"
  "parse_content poll_env ''blob4'' = Inr \<lparr>Type = ''candidate'', Payload = ''cand''\<rparr>"
  by (simp_all add: poll_env_def)

lemma poll_downloads:
  "downloadFile example_cfg poll_env ''k1'' [search_request example_cfg ''sid''] =
     Some (Inr \<lparr>Type = ''sdp'', Payload = ''offer''\<rparr>,
           [search_request example_cfg ''sid'', download_request example_cfg ''k1''])"
  "downloadFile example_cfg poll_env ''k2''
       [search_request example_cfg ''sid'', download_request example_cfg ''k1''] =
     Some (Inl (ErrResponseStatus 500),
           [search_request example_cfg ''sid'', download_request example_cfg ''k1'',
            download_request example_cfg ''k2''])"
  "downloadFile example_cfg poll_env ''k3''
       [search_request example_cfg ''sid'', download_request example_cfg ''k1'',
        download_request example_cfg ''k2''] =
     Some (Inr \<lparr>Type = ''ping'', Payload = []\<rparr>,
           [search_request example_cfg ''sid'', download_request example_cfg ''k1'',
            download_request example_cfg ''k2'', download_request example_cfg ''k3''])"
  "downloadFile example_cfg poll_env ''k4''
       [search_request example_cfg ''sid'', download_request example_cfg ''k1'',
        download_request example_cfg ''k2'', download_request example_cfg ''k3''] =
     Some (Inr \<lparr>Type = ''candidate'', Payload = ''cand''\<rparr>,
           [search_request example_cfg ''sid'', download_request example_cfg ''k1'',
            download_request example_cfg ''k2'', download_request example_cfg ''k3'',
            download_request example_cfg ''k4''])"
proof -
  show "downloadFile example_cfg poll_env ''k1'' [search_request example_cfg ''sid''] =
     Some (Inr \<lparr>Type = ''sdp'', Payload = ''offer''\<rparr>,
           [search_request example_cfg ''sid'', download_request example_cfg ''k1''])"
    using downloadFile_first_reply [of poll_env "''k1''" "[search_request example_cfg ''sid'']"
        "\<lparr>StatusCode = 200, resp_body = ''blob1''\<rparr>" example_cfg]
    by (simp add: poll_env_replies StatusTooManyRequests_def StatusOK_def StatusNotFound_def
        json_Decode_def download_request_def)
  show "downloadFile example_cfg poll_env ''k2''
       [search_request example_cfg ''sid'', download_request example_cfg ''k1''] =
     Some (Inl (ErrResponseStatus 500),
           [search_request example_cfg ''sid'', download_request example_cfg ''k1'',
            download_request example_cfg ''k2''])"
    using downloadFile_first_reply [of poll_env "''k2''"
        "[search_request example_cfg ''sid'', download_request example_cfg ''k1'']"
        "\<lparr>StatusCode = 500, resp_body = []\<rparr>" example_cfg]
    by (simp add: poll_env_replies StatusTooManyRequests_def StatusOK_def StatusNotFound_def
        json_Decode_def download_request_def)
  show "downloadFile example_cfg poll_env ''k3''
       [search_request example_cfg ''sid'', download_request example_cfg ''k1'',
        download_request example_cfg ''k2''] =
     Some (Inr \<lparr>Type = ''ping'', Payload = []\<rparr>,
           [search_request example_cfg ''sid'', download_request example_cfg ''k1'',
            download_request example_cfg ''k2'', download_request example_cfg ''k3''])"
    using downloadFile_first_reply [of poll_env "''k3''"
        "[search_request example_cfg ''sid'', download_request example_cfg ''k1'',
          download_request example_cfg ''k2'']"
        "\<lparr>StatusCode = 200, resp_body = ''blob3''\<rparr>" example_cfg]
    by (simp add: poll_env_replies StatusTooManyRequests_def StatusOK_def StatusNotFound_def
        json_Decode_def download_request_def)
  show "downloadFile example_cfg poll_env ''k4''
       [search_request example_cfg ''sid'', download_request example_cfg ''k1'',
        download_request example_cfg ''k2'', download_request example_cfg ''k3''] =
     Some (Inr \<lparr>Type = ''candidate'', Payload = ''cand''\<rparr>,
           [search_request example_cfg ''sid'', download_request example_cfg ''k1'',
            download_request example_cfg ''k2'', download_request example_cfg ''k3'',
            download_request example_cfg ''k4''])"
    using downloadFile_first_reply [of poll_env "''k4''"
        "[search_request example_cfg ''sid'', download_request example_cfg ''k1'',
          download_request example_cfg ''k2'', download_request example_cfg ''k3'']"
        "\<lparr>StatusCode = 200, resp_body = ''blob4''\<rparr>" example_cfg]
    by (simp add: poll_env_replies StatusTooManyRequests_def StatusOK_def StatusNotFound_def
        json_Decode_def download_request_def)
qed


lemma poll_listing_found:
  "findFiles example_cfg poll_env ''sid'' [] =
     Some (Inr \<lparr>Nodes = [\<lparr>Key = ''k0'', Name = ''sid_sdp_me.json''\<rparr>,
                         \<lparr>Key = ''k1'', Name = ''sid_sdp_other.json''\<rparr>,
                         \<lparr>Key = ''k2'', Name = ''sid_candidate_other.json''\<rparr>,
                         \<lparr>Key = ''k3'', Name = ''sid_ping_other.json''\<rparr>,
                         \<lparr>Key = ''k4'', Name = ''sid_candidate_other.json''\<rparr>]\<rparr>,
           [search_request example_cfg ''sid''])"
proof -
  have f: "request example_cfg poll_env MethodGet (''/?search='' @ ''sid'' @ ''&sort=created:asc'')
          [(''Accept'', ''application/json'')] None []
      = Some (Inr \<lparr>StatusCode = 200, resp_body = ''listing''\<rparr>,
              [] @ [build_request example_cfg MethodGet
                      (''/?search='' @ ''sid'' @ ''&sort=created:asc'')
                      [(''Accept'', ''application/json'')] None])"
    by (rule request_first_reply) (simp_all add: poll_env_def StatusTooManyRequests_def)
  show ?thesis
    using f
    by (simp add: findFiles_def Let_def search_request_def StatusOK_def json_Decode_def)
       (simp add: poll_env_def)
qed

lemma poll_names:
  "strings_Contains ''sid_sdp_me.json'' (InstanceID example_cfg)"
  "\<not> strings_Contains ''sid_sdp_other.json'' (InstanceID example_cfg)"
  "\<not> strings_Contains ''sid_candidate_other.json'' (InstanceID example_cfg)"
  "\<not> strings_Contains ''sid_ping_other.json'' (InstanceID example_cfg)"
  by (simp_all add: example_cfg_def)

lemma sniffCandidates_poll_run:
  "sniffCandidates example_cfg poll_env recording_handlers polling_start =
     Some (None, poll_calls,
       \<lparr>sent = [search_request example_cfg ''sid'', download_request example_cfg ''k1'',
                download_request example_cfg ''k2'', download_request example_cfg ''k3'',
                download_request example_cfg ''k4''],
        sig_logged = [LogError (ErrResponseStatus 500)],
        app = [(SDPHandler, ''offer''), (CandidateHandler, ''cand'')]\<rparr>)"
proof -
  have sid: "SessionID example_cfg = ''sid''" by (simp add: example_cfg_def)
  show ?thesis
    using poll_listing_found poll_downloads poll_names
    by (simp add: sniffCandidates_def sid polling_start_def recording_handlers_def
        fileIoFileContentTypeSDP_def fileIoFileContentTypeCandidate_def sig_log_Error_def
        poll_calls_def)
qed

text \<open>
  The poll of \<open>poll_env\<close>, step by step: the loop over the whole listing, the own entry
  \<open>k0\<close> skipped, \<open>k1\<close> given to the SDP handler, the failed download of \<open>k2\<close> logged,
  the \<open>ping\<close> content of \<open>k3\<close> ignored, \<open>k4\<close> given to the candidate handler, and the end
  of the listing.
\<close>

theorem sniff_author_exclusion_witness:
  "sniffCandidates example_cfg poll_env recording_handlers polling_start =
       Some (None, poll_calls,
         \<lparr>sent = [search_request example_cfg ''sid'', download_request example_cfg ''k1'', download_request example_cfg ''k2'', download_request example_cfg ''k3'', download_request example_cfg ''k4''], sig_logged = [LogError (ErrResponseStatus 500)], app = [(SDPHandler, ''offer''), (CandidateHandler, ''cand'')]\<rparr>) \<and>
   list_all (dispatch_ok example_cfg) poll_calls \<and>
   sniffCandidates example_cfg poll_env recording_handlers polling_start =
       map_option (\<lambda>(cs, s). (None, cs, s))
        (sniff_nodes example_cfg poll_env recording_handlers
         [\<lparr>Key = ''k0'', Name = ''sid_sdp_me.json''\<rparr>, \<lparr>Key = ''k1'', Name = ''sid_sdp_other.json''\<rparr>, \<lparr>Key = ''k2'', Name = ''sid_candidate_other.json''\<rparr>, \<lparr>Key = ''k3'', Name = ''sid_ping_other.json''\<rparr>, \<lparr>Key = ''k4'', Name = ''sid_candidate_other.json''\<rparr>]
         \<lparr>sent = [search_request example_cfg ''sid''], sig_logged = [], app = []\<rparr>) \<and>
   sniff_nodes example_cfg poll_env recording_handlers
         [\<lparr>Key = ''k0'', Name = ''sid_sdp_me.json''\<rparr>, \<lparr>Key = ''k1'', Name = ''sid_sdp_other.json''\<rparr>, \<lparr>Key = ''k2'', Name = ''sid_candidate_other.json''\<rparr>, \<lparr>Key = ''k3'', Name = ''sid_ping_other.json''\<rparr>, \<lparr>Key = ''k4'', Name = ''sid_candidate_other.json''\<rparr>]
         \<lparr>sent = [search_request example_cfg ''sid''], sig_logged = [], app = []\<rparr> =
       sniff_nodes example_cfg poll_env recording_handlers
         [\<lparr>Key = ''k1'', Name = ''sid_sdp_other.json''\<rparr>, \<lparr>Key = ''k2'', Name = ''sid_candidate_other.json''\<rparr>, \<lparr>Key = ''k3'', Name = ''sid_ping_other.json''\<rparr>, \<lparr>Key = ''k4'', Name = ''sid_candidate_other.json''\<rparr>]
         \<lparr>sent = [search_request example_cfg ''sid''], sig_logged = [], app = []\<rparr> \<and>
   sniff_nodes example_cfg poll_env recording_handlers
         [\<lparr>Key = ''k1'', Name = ''sid_sdp_other.json''\<rparr>, \<lparr>Key = ''k2'', Name = ''sid_candidate_other.json''\<rparr>, \<lparr>Key = ''k3'', Name = ''sid_ping_other.json''\<rparr>, \<lparr>Key = ''k4'', Name = ''sid_candidate_other.json''\<rparr>]
         \<lparr>sent = [search_request example_cfg ''sid''], sig_logged = [], app = []\<rparr> =
       map_option (\<lambda>(cs, s'). (\<lparr>call_handler = SDPHandler, call_node = \<lparr>Key = ''k1'', Name = ''sid_sdp_other.json''\<rparr>, call_content = \<lparr>Type = ''sdp'', Payload = ''offer''\<rparr>, call_payload = ''offer''\<rparr> # cs, s'))
        (sniff_nodes example_cfg poll_env recording_handlers
         [\<lparr>Key = ''k2'', Name = ''sid_candidate_other.json''\<rparr>, \<lparr>Key = ''k3'', Name = ''sid_ping_other.json''\<rparr>, \<lparr>Key = ''k4'', Name = ''sid_candidate_other.json''\<rparr>]
         \<lparr>sent = [search_request example_cfg ''sid'', download_request example_cfg ''k1''], sig_logged = [], app = [(SDPHandler, ''offer'')]\<rparr>) \<and>
   sniff_nodes example_cfg poll_env recording_handlers
         [\<lparr>Key = ''k2'', Name = ''sid_candidate_other.json''\<rparr>, \<lparr>Key = ''k3'', Name = ''sid_ping_other.json''\<rparr>, \<lparr>Key = ''k4'', Name = ''sid_candidate_other.json''\<rparr>]
         \<lparr>sent = [search_request example_cfg ''sid'', download_request example_cfg ''k1''], sig_logged = [], app = [(SDPHandler, ''offer'')]\<rparr> =
       sniff_nodes example_cfg poll_env recording_handlers
         [\<lparr>Key = ''k3'', Name = ''sid_ping_other.json''\<rparr>, \<lparr>Key = ''k4'', Name = ''sid_candidate_other.json''\<rparr>]
         \<lparr>sent = [search_request example_cfg ''sid'', download_request example_cfg ''k1'', download_request example_cfg ''k2''], sig_logged = [LogError (ErrResponseStatus 500)], app = [(SDPHandler, ''offer'')]\<rparr> \<and>
   sniff_nodes example_cfg poll_env recording_handlers
         [\<lparr>Key = ''k3'', Name = ''sid_ping_other.json''\<rparr>, \<lparr>Key = ''k4'', Name = ''sid_candidate_other.json''\<rparr>]
         \<lparr>sent = [search_request example_cfg ''sid'', download_request example_cfg ''k1'', download_request example_cfg ''k2''], sig_logged = [LogError (ErrResponseStatus 500)], app = [(SDPHandler, ''offer'')]\<rparr> =
       sniff_nodes example_cfg poll_env recording_handlers
         [\<lparr>Key = ''k4'', Name = ''sid_candidate_other.json''\<rparr>]
         \<lparr>sent = [search_request example_cfg ''sid'', download_request example_cfg ''k1'', download_request example_cfg ''k2'', download_request example_cfg ''k3''], sig_logged = [LogError (ErrResponseStatus 500)], app = [(SDPHandler, ''offer'')]\<rparr> \<and>
   sniff_nodes example_cfg poll_env recording_handlers
         [\<lparr>Key = ''k4'', Name = ''sid_candidate_other.json''\<rparr>]
         \<lparr>sent = [search_request example_cfg ''sid'', download_request example_cfg ''k1'', download_request example_cfg ''k2'', download_request example_cfg ''k3''], sig_logged = [LogError (ErrResponseStatus 500)], app = [(SDPHandler, ''offer'')]\<rparr> =
       map_option (\<lambda>(cs, s'). (\<lparr>call_handler = CandidateHandler, call_node = \<lparr>Key = ''k4'', Name = ''sid_candidate_other.json''\<rparr>, call_content = \<lparr>Type = ''candidate'', Payload = ''cand''\<rparr>, call_payload = ''cand''\<rparr> # cs, s'))
        (sniff_nodes example_cfg poll_env recording_handlers
         []
         \<lparr>sent = [search_request example_cfg ''sid'', download_request example_cfg ''k1'', download_request example_cfg ''k2'', download_request example_cfg ''k3'', download_request example_cfg ''k4''], sig_logged = [LogError (ErrResponseStatus 500)], app = [(SDPHandler, ''offer''), (CandidateHandler, ''cand'')]\<rparr>) \<and>
   sniff_nodes example_cfg poll_env recording_handlers
         []
         \<lparr>sent = [search_request example_cfg ''sid'', download_request example_cfg ''k1'', download_request example_cfg ''k2'', download_request example_cfg ''k3'', download_request example_cfg ''k4''], sig_logged = [LogError (ErrResponseStatus 500)], app = [(SDPHandler, ''offer''), (CandidateHandler, ''cand'')]\<rparr> =
       Some ([], \<lparr>sent = [search_request example_cfg ''sid'', download_request example_cfg ''k1'', download_request example_cfg ''k2'', download_request example_cfg ''k3'', download_request example_cfg ''k4''], sig_logged = [LogError (ErrResponseStatus 500)], app = [(SDPHandler, ''offer''), (CandidateHandler, ''cand'')]\<rparr>)"
proof -
  note run = sniffCandidates_poll_run
  note top =
      sniff_author_exclusion
        [where cfg = "example_cfg"
           and env = "poll_env"
           and h = "recording_handlers"
           and st = "polling_start"
           and err = "None"
           and calls = "poll_calls"
           and st' = "\<lparr>sent = [search_request example_cfg ''sid'', download_request example_cfg ''k1'', download_request example_cfg ''k2'', download_request example_cfg ''k3'', download_request example_cfg ''k4''], sig_logged = [LogError (ErrResponseStatus 500)], app = [(SDPHandler, ''offer''), (CandidateHandler, ''cand'')]\<rparr>"
           and found = "\<lparr>Nodes = [\<lparr>Key = ''k0'', Name = ''sid_sdp_me.json''\<rparr>, \<lparr>Key = ''k1'', Name = ''sid_sdp_other.json''\<rparr>, \<lparr>Key = ''k2'', Name = ''sid_candidate_other.json''\<rparr>, \<lparr>Key = ''k3'', Name = ''sid_ping_other.json''\<rparr>, \<lparr>Key = ''k4'', Name = ''sid_candidate_other.json''\<rparr>]\<rparr>"
           and tr = "[search_request example_cfg ''sid'']"]
  have a: "list_all (dispatch_ok example_cfg) poll_calls"
    by (rule top [THEN conjunct1, THEN mp, OF run])
  have "findFiles example_cfg poll_env (SessionID example_cfg) (sent polling_start) =
      Some (Inr \<lparr>Nodes = [\<lparr>Key = ''k0'', Name = ''sid_sdp_me.json''\<rparr>, \<lparr>Key = ''k1'', Name = ''sid_sdp_other.json''\<rparr>, \<lparr>Key = ''k2'', Name = ''sid_candidate_other.json''\<rparr>, \<lparr>Key = ''k3'', Name = ''sid_ping_other.json''\<rparr>, \<lparr>Key = ''k4'', Name = ''sid_candidate_other.json''\<rparr>]\<rparr>, [search_request example_cfg ''sid''])"
    using poll_listing_found by (simp add: example_cfg_def polling_start_def)
  from top [THEN conjunct2, THEN conjunct1, THEN mp, OF this]
  have b: "sniffCandidates example_cfg poll_env recording_handlers polling_start =
       map_option (\<lambda>(cs, s). (None, cs, s))
        (sniff_nodes example_cfg poll_env recording_handlers
         [\<lparr>Key = ''k0'', Name = ''sid_sdp_me.json''\<rparr>, \<lparr>Key = ''k1'', Name = ''sid_sdp_other.json''\<rparr>, \<lparr>Key = ''k2'', Name = ''sid_candidate_other.json''\<rparr>, \<lparr>Key = ''k3'', Name = ''sid_ping_other.json''\<rparr>, \<lparr>Key = ''k4'', Name = ''sid_candidate_other.json''\<rparr>]
         \<lparr>sent = [search_request example_cfg ''sid''], sig_logged = [], app = []\<rparr>)"
    by (simp add: polling_start_def del: sniff_nodes.simps)
  have "strings_Contains (Name \<lparr>Key = ''k0'', Name = ''sid_sdp_me.json''\<rparr>) (InstanceID example_cfg)"
    using poll_names poll_downloads by simp
  from sniff_author_exclusion
        [where cfg = "example_cfg"
           and env = "poll_env"
           and h = "recording_handlers"
           and st = "\<lparr>sent = [search_request example_cfg ''sid''], sig_logged = [], app = []\<rparr>"
           and node = "\<lparr>Key = ''k0'', Name = ''sid_sdp_me.json''\<rparr>"
           and nodes = "[\<lparr>Key = ''k1'', Name = ''sid_sdp_other.json''\<rparr>, \<lparr>Key = ''k2'', Name = ''sid_candidate_other.json''\<rparr>, \<lparr>Key = ''k3'', Name = ''sid_ping_other.json''\<rparr>, \<lparr>Key = ''k4'', Name = ''sid_candidate_other.json''\<rparr>]",
           THEN conjunct2, THEN conjunct2, THEN conjunct2, THEN conjunct1, THEN mp, OF this]
  have s3: "sniff_nodes example_cfg poll_env recording_handlers
         [\<lparr>Key = ''k0'', Name = ''sid_sdp_me.json''\<rparr>, \<lparr>Key = ''k1'', Name = ''sid_sdp_other.json''\<rparr>, \<lparr>Key = ''k2'', Name = ''sid_candidate_other.json''\<rparr>, \<lparr>Key = ''k3'', Name = ''sid_ping_other.json''\<rparr>, \<lparr>Key = ''k4'', Name = ''sid_candidate_other.json''\<rparr>]
         \<lparr>sent = [search_request example_cfg ''sid''], sig_logged = [], app = []\<rparr> =
       sniff_nodes example_cfg poll_env recording_handlers
         [\<lparr>Key = ''k1'', Name = ''sid_sdp_other.json''\<rparr>, \<lparr>Key = ''k2'', Name = ''sid_candidate_other.json''\<rparr>, \<lparr>Key = ''k3'', Name = ''sid_ping_other.json''\<rparr>, \<lparr>Key = ''k4'', Name = ''sid_candidate_other.json''\<rparr>]
         \<lparr>sent = [search_request example_cfg ''sid''], sig_logged = [], app = []\<rparr>"
    by (simp add: recording_handlers_def sig_log_Error_def del: sniff_nodes.simps)
  have "\<not> strings_Contains (Name \<lparr>Key = ''k1'', Name = ''sid_sdp_other.json''\<rparr>) (InstanceID example_cfg) \<and>
      downloadFile example_cfg poll_env (Key \<lparr>Key = ''k1'', Name = ''sid_sdp_other.json''\<rparr>) (sent \<lparr>sent = [search_request example_cfg ''sid''], sig_logged = [], app = []\<rparr>) =
        Some (Inr \<lparr>Type = ''sdp'', Payload = ''offer''\<rparr>, [search_request example_cfg ''sid'', download_request example_cfg ''k1''])"
    using poll_names poll_downloads by simp
  from sniff_author_exclusion
        [where cfg = "example_cfg"
           and env = "poll_env"
           and h = "recording_handlers"
           and st = "\<lparr>sent = [search_request example_cfg ''sid''], sig_logged = [], app = []\<rparr>"
           and node = "\<lparr>Key = ''k1'', Name = ''sid_sdp_other.json''\<rparr>"
           and nodes = "[\<lparr>Key = ''k2'', Name = ''sid_candidate_other.json''\<rparr>, \<lparr>Key = ''k3'', Name = ''sid_ping_other.json''\<rparr>, \<lparr>Key = ''k4'', Name = ''sid_candidate_other.json''\<rparr>]"
           and content = "\<lparr>Type = ''sdp'', Payload = ''offer''\<rparr>"
           and tr' = "[search_request example_cfg ''sid'', download_request example_cfg ''k1'']",
           THEN conjunct2, THEN conjunct2, THEN conjunct2, THEN conjunct2, THEN conjunct2, THEN mp, OF this]
  have s4: "sniff_nodes example_cfg poll_env recording_handlers
         [\<lparr>Key = ''k1'', Name = ''sid_sdp_other.json''\<rparr>, \<lparr>Key = ''k2'', Name = ''sid_candidate_other.json''\<rparr>, \<lparr>Key = ''k3'', Name = ''sid_ping_other.json''\<rparr>, \<lparr>Key = ''k4'', Name = ''sid_candidate_other.json''\<rparr>]
         \<lparr>sent = [search_request example_cfg ''sid''], sig_logged = [], app = []\<rparr> =
       map_option (\<lambda>(cs, s'). (\<lparr>call_handler = SDPHandler, call_node = \<lparr>Key = ''k1'', Name = ''sid_sdp_other.json''\<rparr>, call_content = \<lparr>Type = ''sdp'', Payload = ''offer''\<rparr>, call_payload = ''offer''\<rparr> # cs, s'))
        (sniff_nodes example_cfg poll_env recording_handlers
         [\<lparr>Key = ''k2'', Name = ''sid_candidate_other.json''\<rparr>, \<lparr>Key = ''k3'', Name = ''sid_ping_other.json''\<rparr>, \<lparr>Key = ''k4'', Name = ''sid_candidate_other.json''\<rparr>]
         \<lparr>sent = [search_request example_cfg ''sid'', download_request example_cfg ''k1''], sig_logged = [], app = [(SDPHandler, ''offer'')]\<rparr>)"
    by (simp add: recording_handlers_def sig_log_Error_def del: sniff_nodes.simps)
  have "\<not> strings_Contains (Name \<lparr>Key = ''k2'', Name = ''sid_candidate_other.json''\<rparr>) (InstanceID example_cfg) \<and>
      downloadFile example_cfg poll_env (Key \<lparr>Key = ''k2'', Name = ''sid_candidate_other.json''\<rparr>) (sent \<lparr>sent = [search_request example_cfg ''sid'', download_request example_cfg ''k1''], sig_logged = [], app = [(SDPHandler, ''offer'')]\<rparr>) =
        Some (Inl (ErrResponseStatus 500), [search_request example_cfg ''sid'', download_request example_cfg ''k1'', download_request example_cfg ''k2''])"
    using poll_names poll_downloads by simp
  from sniff_author_exclusion
        [where cfg = "example_cfg"
           and env = "poll_env"
           and h = "recording_handlers"
           and st = "\<lparr>sent = [search_request example_cfg ''sid'', download_request example_cfg ''k1''], sig_logged = [], app = [(SDPHandler, ''offer'')]\<rparr>"
           and node = "\<lparr>Key = ''k2'', Name = ''sid_candidate_other.json''\<rparr>"
           and nodes = "[\<lparr>Key = ''k3'', Name = ''sid_ping_other.json''\<rparr>, \<lparr>Key = ''k4'', Name = ''sid_candidate_other.json''\<rparr>]"
           and e = "ErrResponseStatus 500"
           and tr' = "[search_request example_cfg ''sid'', download_request example_cfg ''k1'', download_request example_cfg ''k2'']",
           THEN conjunct2, THEN conjunct2, THEN conjunct2, THEN conjunct2, THEN conjunct1, THEN mp, OF this]
  have s5: "sniff_nodes example_cfg poll_env recording_handlers
         [\<lparr>Key = ''k2'', Name = ''sid_candidate_other.json''\<rparr>, \<lparr>Key = ''k3'', Name = ''sid_ping_other.json''\<rparr>, \<lparr>Key = ''k4'', Name = ''sid_candidate_other.json''\<rparr>]
         \<lparr>sent = [search_request example_cfg ''sid'', download_request example_cfg ''k1''], sig_logged = [], app = [(SDPHandler, ''offer'')]\<rparr> =
       sniff_nodes example_cfg poll_env recording_handlers
         [\<lparr>Key = ''k3'', Name = ''sid_ping_other.json''\<rparr>, \<lparr>Key = ''k4'', Name = ''sid_candidate_other.json''\<rparr>]
         \<lparr>sent = [search_request example_cfg ''sid'', download_request example_cfg ''k1'', download_request example_cfg ''k2''], sig_logged = [LogError (ErrResponseStatus 500)], app = [(SDPHandler, ''offer'')]\<rparr>"
    by (simp add: recording_handlers_def sig_log_Error_def del: sniff_nodes.simps)
  have "\<not> strings_Contains (Name \<lparr>Key = ''k3'', Name = ''sid_ping_other.json''\<rparr>) (InstanceID example_cfg) \<and>
      downloadFile example_cfg poll_env (Key \<lparr>Key = ''k3'', Name = ''sid_ping_other.json''\<rparr>) (sent \<lparr>sent = [search_request example_cfg ''sid'', download_request example_cfg ''k1'', download_request example_cfg ''k2''], sig_logged = [LogError (ErrResponseStatus 500)], app = [(SDPHandler, ''offer'')]\<rparr>) =
        Some (Inr \<lparr>Type = ''ping'', Payload = []\<rparr>, [search_request example_cfg ''sid'', download_request example_cfg ''k1'', download_request example_cfg ''k2'', download_request example_cfg ''k3''])"
    using poll_names poll_downloads by simp
  from sniff_author_exclusion
        [where cfg = "example_cfg"
           and env = "poll_env"
           and h = "recording_handlers"
           and st = "\<lparr>sent = [search_request example_cfg ''sid'', download_request example_cfg ''k1'', download_request example_cfg ''k2''], sig_logged = [LogError (ErrResponseStatus 500)], app = [(SDPHandler, ''offer'')]\<rparr>"
           and node = "\<lparr>Key = ''k3'', Name = ''sid_ping_other.json''\<rparr>"
           and nodes = "[\<lparr>Key = ''k4'', Name = ''sid_candidate_other.json''\<rparr>]"
           and content = "\<lparr>Type = ''ping'', Payload = []\<rparr>"
           and tr' = "[search_request example_cfg ''sid'', download_request example_cfg ''k1'', download_request example_cfg ''k2'', download_request example_cfg ''k3'']",
           THEN conjunct2, THEN conjunct2, THEN conjunct2, THEN conjunct2, THEN conjunct2, THEN mp, OF this]
  have s6: "sniff_nodes example_cfg poll_env recording_handlers
         [\<lparr>Key = ''k3'', Name = ''sid_ping_other.json''\<rparr>, \<lparr>Key = ''k4'', Name = ''sid_candidate_other.json''\<rparr>]
         \<lparr>sent = [search_request example_cfg ''sid'', download_request example_cfg ''k1'', download_request example_cfg ''k2''], sig_logged = [LogError (ErrResponseStatus 500)], app = [(SDPHandler, ''offer'')]\<rparr> =
       sniff_nodes example_cfg poll_env recording_handlers
         [\<lparr>Key = ''k4'', Name = ''sid_candidate_other.json''\<rparr>]
         \<lparr>sent = [search_request example_cfg ''sid'', download_request example_cfg ''k1'', download_request example_cfg ''k2'', download_request example_cfg ''k3''], sig_logged = [LogError (ErrResponseStatus 500)], app = [(SDPHandler, ''offer'')]\<rparr>"
    by (simp add: recording_handlers_def sig_log_Error_def del: sniff_nodes.simps)
  have "\<not> strings_Contains (Name \<lparr>Key = ''k4'', Name = ''sid_candidate_other.json''\<rparr>) (InstanceID example_cfg) \<and>
      downloadFile example_cfg poll_env (Key \<lparr>Key = ''k4'', Name = ''sid_candidate_other.json''\<rparr>) (sent \<lparr>sent = [search_request example_cfg ''sid'', download_request example_cfg ''k1'', download_request example_cfg ''k2'', download_request example_cfg ''k3''], sig_logged = [LogError (ErrResponseStatus 500)], app = [(SDPHandler, ''offer'')]\<rparr>) =
        Some (Inr \<lparr>Type = ''candidate'', Payload = ''cand''\<rparr>, [search_request example_cfg ''sid'', download_request example_cfg ''k1'', download_request example_cfg ''k2'', download_request example_cfg ''k3'', download_request example_cfg ''k4''])"
    using poll_names poll_downloads by simp
  from sniff_author_exclusion
        [where cfg = "example_cfg"
           and env = "poll_env"
           and h = "recording_handlers"
           and st = "\<lparr>sent = [search_request example_cfg ''sid'', download_request example_cfg ''k1'', download_request example_cfg ''k2'', download_request example_cfg ''k3''], sig_logged = [LogError (ErrResponseStatus 500)], app = [(SDPHandler, ''offer'')]\<rparr>"
           and node = "\<lparr>Key = ''k4'', Name = ''sid_candidate_other.json''\<rparr>"
           and nodes = "[]"
           and content = "\<lparr>Type = ''candidate'', Payload = ''cand''\<rparr>"
           and tr' = "[search_request example_cfg ''sid'', download_request example_cfg ''k1'', download_request example_cfg ''k2'', download_request example_cfg ''k3'', download_request example_cfg ''k4'']",
           THEN conjunct2, THEN conjunct2, THEN conjunct2, THEN conjunct2, THEN conjunct2, THEN mp, OF this]
  have s7: "sniff_nodes example_cfg poll_env recording_handlers
         [\<lparr>Key = ''k4'', Name = ''sid_candidate_other.json''\<rparr>]
         \<lparr>sent = [search_request example_cfg ''sid'', download_request example_cfg ''k1'', download_request example_cfg ''k2'', download_request example_cfg ''k3''], sig_logged = [LogError (ErrResponseStatus 500)], app = [(SDPHandler, ''offer'')]\<rparr> =
       map_option (\<lambda>(cs, s'). (\<lparr>call_handler = CandidateHandler, call_node = \<lparr>Key = ''k4'', Name = ''sid_candidate_other.json''\<rparr>, call_content = \<lparr>Type = ''candidate'', Payload = ''cand''\<rparr>, call_payload = ''cand''\<rparr> # cs, s'))
        (sniff_nodes example_cfg poll_env recording_handlers
         []
         \<lparr>sent = [search_request example_cfg ''sid'', download_request example_cfg ''k1'', download_request example_cfg ''k2'', download_request example_cfg ''k3'', download_request example_cfg ''k4''], sig_logged = [LogError (ErrResponseStatus 500)], app = [(SDPHandler, ''offer''), (CandidateHandler, ''cand'')]\<rparr>)"
    by (simp add: recording_handlers_def sig_log_Error_def del: sniff_nodes.simps)
  have s8: "sniff_nodes example_cfg poll_env recording_handlers
         []
         \<lparr>sent = [search_request example_cfg ''sid'', download_request example_cfg ''k1'', download_request example_cfg ''k2'', download_request example_cfg ''k3'', download_request example_cfg ''k4''], sig_logged = [LogError (ErrResponseStatus 500)], app = [(SDPHandler, ''offer''), (CandidateHandler, ''cand'')]\<rparr> =
       Some ([], \<lparr>sent = [search_request example_cfg ''sid'', download_request example_cfg ''k1'', download_request example_cfg ''k2'', download_request example_cfg ''k3'', download_request example_cfg ''k4''], sig_logged = [LogError (ErrResponseStatus 500)], app = [(SDPHandler, ''offer''), (CandidateHandler, ''cand'')]\<rparr>)"
    by (rule sniff_author_exclusion
        [where cfg = "example_cfg"
           and env = "poll_env"
           and h = "recording_handlers"
           and st = "\<lparr>sent = [search_request example_cfg ''sid'', download_request example_cfg ''k1'', download_request example_cfg ''k2'', download_request example_cfg ''k3'', download_request example_cfg ''k4''], sig_logged = [LogError (ErrResponseStatus 500)], app = [(SDPHandler, ''offer''), (CandidateHandler, ''cand'')]\<rparr>",
           THEN conjunct2, THEN conjunct2, THEN conjunct1])
  show ?thesis
    using run a b s3 s4 s5 s6 s7 s8 by (intro conjI)
qed

end
